theory Spec2Isabelle
  imports Complex_Main "HOL-Library.Char_ord" "HOL-Library.List_Lexorder"
begin

section \<open>Network anomaly detection notebook\<close>

text \<open>
  The notebook \<^verbatim>\<open>Final_Anomaly_Detection_Project.ipynb\<close> is a straight-line script of
  five code cells over pandas, NumPy, scikit-learn and Keras. The cells are modelled as
  functions on the notebook's global state. Data frames are mutable objects and live in a
  heap; the names \<^verbatim>\<open>df\<close> and \<^verbatim>\<open>df_encoded\<close> hold references into it.

  Floating-point numbers are modelled as real numbers: every statement below is about the
  exact arithmetic that the floating-point computation approximates. Missing values
  (NaN) are outside the model.

  Library calls are modelled after the behaviour of the library (scikit-learn 1.x). The
  two trained models (the isolation forest's decision function, the autoencoder's
  reconstruction) are parameters of the development: nothing is assumed about them.

  Python compiles a cell before it runs any of it. The last cell of the notebook does
  not compile, and is modelled so.
\<close>

subsection \<open>Errors\<close>

datatype error = KeyError | ValueError | NameError | SyntaxError

definition bind_e :: "error + 'a \<Rightarrow> ('a \<Rightarrow> error + 'b) \<Rightarrow> error + 'b" where
  "bind_e m f = (case m of Inl e \<Rightarrow> Inl e | Inr x \<Rightarrow> f x)"

subsection \<open>Data frames\<close>

text \<open>
  A column has one of the dtypes \<^verbatim>\<open>int64\<close>, \<^verbatim>\<open>float64\<close> or \<^verbatim>\<open>object\<close> (strings).
  A frame is the ordered list of its labelled columns. \<^verbatim>\<open>read_csv(..., header=None)\<close>
  labels the columns by position; the notebook later adds columns labelled by name.
\<close>

datatype label = Pos nat | Name string

datatype column = IntCol "int list" | FloatCol "real list" | ObjCol "string list"

type_synonym frame = "(label \<times> column) list"

fun col_len :: "column \<Rightarrow> nat" where
  "col_len (IntCol xs) = length xs"
| "col_len (FloatCol xs) = length xs"
| "col_len (ObjCol ys) = length ys"

definition nrows :: "frame \<Rightarrow> nat" where
  "nrows fr = (case fr of [] \<Rightarrow> 0 | (l, c) # _ \<Rightarrow> col_len c)"

text \<open>\<^verbatim>\<open>fr[l]\<close>: the column labelled \<open>l\<close>, or \<^verbatim>\<open>KeyError\<close>.\<close>

definition getitem :: "frame \<Rightarrow> label \<Rightarrow> error + column" where
  "getitem fr l = (case map_of fr l of None \<Rightarrow> Inl KeyError | Some c \<Rightarrow> Inr c)"

text \<open>
  \<^verbatim>\<open>fr[l] = c\<close>: replaces the column labelled \<open>l\<close> where it stands, or appends a new
  column; an array whose length is not the frame's row count is a \<^verbatim>\<open>ValueError\<close>.
\<close>

definition setitem :: "frame \<Rightarrow> label \<Rightarrow> column \<Rightarrow> error + frame" where
  "setitem fr l c =
     (if fr \<noteq> [] \<and> col_len c \<noteq> nrows fr then Inl ValueError
      else if l \<in> set (map fst fr)
        then Inr (map (\<lambda>(k, v). if k = l then (k, c) else (k, v)) fr)
        else Inr (fr @ [(l, c)]))"

text \<open>\<^verbatim>\<open>fr.drop(columns=[l])\<close>: a new frame without the column; \<^verbatim>\<open>KeyError\<close> if absent.\<close>

definition drop_columns :: "frame \<Rightarrow> label \<Rightarrow> error + frame" where
  "drop_columns fr l =
     (if l \<in> set (map fst fr) then Inr (filter (\<lambda>(k, v). k \<noteq> l) fr) else Inl KeyError)"

fun is_object :: "column \<Rightarrow> bool" where
  "is_object (ObjCol ys) = True"
| "is_object (IntCol xs) = False"
| "is_object (FloatCol xs) = False"

text \<open>\<^verbatim>\<open>fr.select_dtypes(include=['object']).columns\<close>\<close>

definition select_dtypes_object :: "frame \<Rightarrow> label list" where
  "select_dtypes_object fr = map fst (filter (\<lambda>(k, v). is_object v) fr)"

text \<open>
  What \<^verbatim>\<open>pd.read_csv(path, header=None)\<close> returns when it returns: columns labelled
  \<open>0, 1, \<dots>\<close> by position, all of one length, and at least one row (an empty file is
  an error of the reader).
\<close>

definition loaded_table :: "frame \<Rightarrow> bool" where
  "loaded_table fr \<longleftrightarrow>
     map fst fr = map Pos [0..<length fr] \<and> 0 < nrows fr \<and>
     list_all (\<lambda>c. col_len c = nrows fr) (map snd fr)"

subsection \<open>Label encoding\<close>

text \<open>
  \<^verbatim>\<open>LabelEncoder().fit_transform(y)\<close>: the classes are the sorted distinct values of
  \<open>y\<close> (\<^verbatim>\<open>np.unique\<close>), and every value is replaced by its position among the classes.
\<close>

definition np_unique :: "'a::linorder list \<Rightarrow> 'a list" where
  "np_unique ys = sort (remdups ys)"

fun index_of :: "'a list \<Rightarrow> 'a \<Rightarrow> nat" where
  "index_of [] y = 0"
| "index_of (x # xs) y = (if x = y then 0 else Suc (index_of xs y))"

definition encode_values :: "'a::linorder list \<Rightarrow> int list" where
  "encode_values ys = map (\<lambda>y. int (index_of (np_unique ys) y)) ys"

fun LabelEncoder_fit_transform :: "column \<Rightarrow> column" where
  "LabelEncoder_fit_transform (ObjCol ys) = IntCol (encode_values ys)"
| "LabelEncoder_fit_transform (IntCol xs) = IntCol (encode_values xs)"
| "LabelEncoder_fit_transform (FloatCol xs) = IntCol (encode_values xs)"

subsection \<open>NumPy statistics and standard scaling\<close>

text \<open>\<^verbatim>\<open>np.mean\<close> and \<^verbatim>\<open>np.std\<close> (population standard deviation, \<^verbatim>\<open>ddof=0\<close>).\<close>

definition np_mean :: "real list \<Rightarrow> real" where
  "np_mean xs = sum_list xs / real (length xs)"

definition np_var :: "real list \<Rightarrow> real" where
  "np_var xs = np_mean (map (\<lambda>x. (x - np_mean xs)\<^sup>2) xs)"

definition np_std :: "real list \<Rightarrow> real" where
  "np_std xs = sqrt (np_var xs)"

text \<open>
  \<^verbatim>\<open>StandardScaler\<close> centres each column on its mean and divides by its scale, both
  taken over the data it is fitted on. The scale \<^verbatim>\<open>scale_\<close> of a column is the square
  root of its variance, except that the scaler takes it to be 1 on a column it finds
  constant or nearly so:
  \<^verbatim>\<open>
  def _is_constant_feature(var, mean, n_samples):
      eps = np.finfo(np.float64).eps
      upper_bound = n_samples * eps * var + (n_samples * mean * eps) ** 2
      return var <= upper_bound
  ...
  constant_mask = _is_constant_feature(self.var_, self.mean_, self.n_samples_seen_)
  self.scale_ = _handle_zeros_in_scale(np.sqrt(self.var_), copy=False,
                                       constant_mask=constant_mask)
  \<close>
  where \<^verbatim>\<open>_handle_zeros_in_scale\<close> writes 1 into the masked entries. The machine epsilon
  of a 64-bit float is 2 to the power -52. A column of zero variance is always masked.
\<close>

definition float64_eps :: real where
  "float64_eps = 1 / 2 ^ 52"

definition is_constant_feature :: "real \<Rightarrow> real \<Rightarrow> nat \<Rightarrow> bool" where
  "is_constant_feature v m n_samples \<longleftrightarrow>
     v \<le> real n_samples * float64_eps * v + (real n_samples * m * float64_eps)\<^sup>2"

definition handle_zeros_in_scale :: "real \<Rightarrow> bool \<Rightarrow> real" where
  "handle_zeros_in_scale s constant_mask = (if constant_mask then 1 else s)"

definition scaler_scale :: "real list \<Rightarrow> real" where
  "scaler_scale xs =
     handle_zeros_in_scale (sqrt (np_var xs))
       (is_constant_feature (np_var xs) (np_mean xs) (length xs))"

definition scale_column :: "real list \<Rightarrow> real list" where
  "scale_column xs = map (\<lambda>x. (x - np_mean xs) / scaler_scale xs) xs"

text \<open>
  The scaler converts the frame to a float array first; a column of strings does not
  convert (\<^verbatim>\<open>ValueError\<close>; the notebook never gets there, since the loop before has
  encoded every string column). An array with no row or no column is rejected too.
  The result is a two-dimensional array, held as the list of its rows.
\<close>

fun numeric_columns :: "frame \<Rightarrow> error + real list list" where
  "numeric_columns [] = Inr []"
| "numeric_columns ((l, IntCol xs) # fr) =
     (case numeric_columns fr of Inl e \<Rightarrow> Inl e | Inr cs \<Rightarrow> Inr (map real_of_int xs # cs))"
| "numeric_columns ((l, FloatCol xs) # fr) =
     (case numeric_columns fr of Inl e \<Rightarrow> Inl e | Inr cs \<Rightarrow> Inr (xs # cs))"
| "numeric_columns ((l, ObjCol ys) # fr) = Inl ValueError"

definition rows_of :: "nat \<Rightarrow> real list list \<Rightarrow> real list list" where
  "rows_of n cols = map (\<lambda>i. map (\<lambda>c. c ! i) cols) [0..<n]"

definition StandardScaler_fit_transform :: "frame \<Rightarrow> error + real list list" where
  "StandardScaler_fit_transform fr =
     (case numeric_columns fr of
        Inl e \<Rightarrow> Inl e
      | Inr cols \<Rightarrow>
          if nrows fr = 0 \<or> cols = [] then Inl ValueError
          else Inr (rows_of (nrows fr) (map scale_column cols)))"

subsection \<open>The notebook's state\<close>

text \<open>
  The heap holds the data-frame objects; a reference is a position in it. A name that
  no cell has assigned yet is unbound (\<open>None\<close>), and reading it is a \<^verbatim>\<open>NameError\<close>.
  \<open>printed\<close> collects what the cells print.
  Python has no dangling reference: the cells only store positions of objects they have
  allocated, and the bound check in \<open>deref\<close> merely makes the function total.
\<close>

record metrics =
  precision :: real
  recall :: real
  f1_score :: real
  support :: nat

type_synonym report = "(int \<times> metrics) list"

datatype printout = Text string | Report report

record state =
  heap :: "frame list"
  df :: "nat option"
  df_encoded :: "nat option"
  X_scaled :: "real list list option"
  mse :: "real list option"
  threshold :: "real option"
  printed :: "printout list"

definition init_state :: state where
  "init_state = \<lparr>heap = [], df = None, df_encoded = None, X_scaled = None,
     mse = None, threshold = None, printed = []\<rparr>"

definition var :: "'a option \<Rightarrow> error + 'a" where
  "var v = (case v of None \<Rightarrow> Inl NameError | Some x \<Rightarrow> Inr x)"

definition deref :: "frame list \<Rightarrow> nat \<Rightarrow> error + frame" where
  "deref h r = (if r < length h then Inr (h ! r) else Inl NameError)"

text \<open>Reading and assigning a column of the frame object behind a reference.\<close>

definition heap_getitem :: "frame list \<Rightarrow> nat \<Rightarrow> label \<Rightarrow> error + column" where
  "heap_getitem h r l = bind_e (deref h r) (\<lambda>fr. getitem fr l)"

definition heap_setitem :: "frame list \<Rightarrow> nat \<Rightarrow> label \<Rightarrow> column \<Rightarrow> error + frame list" where
  "heap_setitem h r l c =
     bind_e (deref h r) (\<lambda>fr. bind_e (setitem fr l c) (\<lambda>fr'. Inr (h[r := fr'])))"

subsection \<open>Cell 1: load\<close>

text \<open>
  \<^verbatim>\<open>df = pd.read_csv("kddcup.data_10_percent.gz", header=None)\<close>.
  The argument \<open>parsed\<close> is the table the reader returns for the file.
\<close>

definition cell1 :: "frame \<Rightarrow> state \<Rightarrow> error + state" where
  "cell1 parsed st =
     Inr (st\<lparr>heap := heap st @ [parsed], df := Some (length (heap st))\<rparr>)"

subsection \<open>Cell 2: encode and normalise\<close>

text \<open>
  \<^verbatim>\<open>
  for col in df_encoded.select_dtypes(include=['object']).columns:
      le = LabelEncoder()
      df_encoded[col] = le.fit_transform(df_encoded[col])
  \<close>
  The labels to visit are computed once, before the loop; each pass reads and assigns a
  column of the object behind \<^verbatim>\<open>df_encoded\<close>.
\<close>

fun encode_loop :: "label list \<Rightarrow> nat \<Rightarrow> frame list \<Rightarrow> error + frame list" where
  "encode_loop [] r h = Inr h"
| "encode_loop (col # cols) r h =
     (case heap_getitem h r col of
        Inl e \<Rightarrow> Inl e
      | Inr c \<Rightarrow>
          (case heap_setitem h r col (LabelEncoder_fit_transform c) of
             Inl e \<Rightarrow> Inl e
           | Inr h' \<Rightarrow> encode_loop cols r h'))"

text \<open>
  \<^verbatim>\<open>
  df_encoded = df.copy()
  ...
  scaler = StandardScaler()
  X_scaled = scaler.fit_transform(df_encoded.drop(columns=[41]))
  \<close>
  \<^verbatim>\<open>copy\<close> allocates a new frame object with the same contents.
\<close>

definition cell2 :: "state \<Rightarrow> error + state" where
  "cell2 st =
     bind_e (var (df st)) (\<lambda>d.
     bind_e (deref (heap st) d) (\<lambda>fr.
       let r = length (heap st); h1 = heap st @ [fr] in
       bind_e (encode_loop (select_dtypes_object fr) r h1) (\<lambda>h2.
       bind_e (deref h2 r) (\<lambda>enc.
       bind_e (drop_columns enc (Pos 41)) (\<lambda>features.
       bind_e (StandardScaler_fit_transform features) (\<lambda>X.
         Inr (st\<lparr>heap := h2, df_encoded := Some r, X_scaled := Some X\<rparr>)))))))"

subsection \<open>Cell 3: isolation forest\<close>

text \<open>
  The trained models are parameters. \<open>decision_function c g X\<close> stands for the decision
  values of an isolation forest with contamination \<open>c\<close>, built with the random generator
  \<open>g\<close>, fitted on \<open>X\<close> and evaluated on the rows of \<open>X\<close>. \<open>reconstruct e d X\<close> stands
  for the output on \<open>X\<close> of the notebook's autoencoder (\<open>d\<close> inputs, dense layers of 64,
  32, 64 and \<open>d\<close> units, five epochs of Adam on the mean squared error, batches of 256),
  trained on \<open>X\<close>; the notebook fixes no seed for it, so its result depends on the
  ambient randomness \<open>e\<close> of the run.
\<close>

datatype generator = Seeded nat | Global nat

record models =
  decision_function :: "real \<Rightarrow> generator \<Rightarrow> real list list \<Rightarrow> real list"
  reconstruct :: "nat \<Rightarrow> nat \<Rightarrow> real list list \<Rightarrow> real list list"

text \<open>
  \<^verbatim>\<open>random_state\<close>: an integer seeds a generator of its own; \<^verbatim>\<open>None\<close> (the default)
  takes the process-wide generator, in whatever state \<open>e\<close> the run finds it.
\<close>

definition check_random_state :: "nat option \<Rightarrow> nat \<Rightarrow> generator" where
  "check_random_state random_state e =
     (case random_state of None \<Rightarrow> Global e | Some seed \<Rightarrow> Seeded seed)"

text \<open>
  \<^verbatim>\<open>IsolationForest.fit_predict\<close> fits and predicts on the same array; \<^verbatim>\<open>predict\<close>
  starts from an array of ones and writes \<open>-1\<close> where the decision value is negative.
\<close>

definition IsolationForest_fit_predict ::
    "models \<Rightarrow> real \<Rightarrow> nat option \<Rightarrow> nat \<Rightarrow> real list list \<Rightarrow> int list" where
  "IsolationForest_fit_predict lib c random_state e X =
     map (\<lambda>v. if v < 0 then - 1 else 1)
       (decision_function lib c (check_random_state random_state e) X)"

text \<open>
  \<^verbatim>\<open>
  iso_forest = IsolationForest(contamination=0.05, random_state=42)
  df_encoded['anomaly_iforest'] = iso_forest.fit_predict(X_scaled)
  \<close>
\<close>

definition cell3 :: "models \<Rightarrow> nat \<Rightarrow> state \<Rightarrow> error + state" where
  "cell3 lib e st =
     bind_e (var (X_scaled st)) (\<lambda>X.
     bind_e (var (df_encoded st)) (\<lambda>r.
     bind_e (heap_setitem (heap st) r (Name ''anomaly_iforest'')
               (IntCol (IsolationForest_fit_predict lib (5 / 100) (Some 42) e X))) (\<lambda>h'.
       Inr (st\<lparr>heap := h'\<rparr>))))"

subsection \<open>Cell 4: autoencoder\<close>

text \<open>\<^verbatim>\<open>X.shape[1]\<close> of a two-dimensional array with at least one row.\<close>

definition shape1 :: "real list list \<Rightarrow> nat" where
  "shape1 X = (case X of [] \<Rightarrow> 0 | row # _ \<Rightarrow> length row)"

text \<open>
  \<^verbatim>\<open>tf.keras.losses.mse(y_true, y_pred)\<close>: the mean over the last axis of the squared
  differences, one value per row; arrays of different shapes are an error.
\<close>

definition keras_mse :: "real list list \<Rightarrow> real list list \<Rightarrow> error + real list" where
  "keras_mse Y P =
     (if map length Y \<noteq> map length P then Inl ValueError
      else Inr (map2 (\<lambda>y p. np_mean (map2 (\<lambda>a b. (b - a)\<^sup>2) y p)) Y P))"

text \<open>\<^verbatim>\<open>(errors > t).astype(int)\<close>\<close>

definition greater_astype_int :: "real list \<Rightarrow> real \<Rightarrow> int list" where
  "greater_astype_int errors t = map (\<lambda>e. if e > t then 1 else 0) errors"

text \<open>
  \<^verbatim>\<open>
  input_dim = X_scaled.shape[1]
  ... (build, compile, fit)
  reconstructions = autoencoder.predict(X_scaled)
  mse = tf.keras.losses.mse(X_scaled, reconstructions).numpy()
  threshold = np.mean(mse) + 3 * np.std(mse)
  df_encoded['anomaly_autoencoder'] = (mse > threshold).astype(int)
  \<close>
\<close>

definition cell4 :: "models \<Rightarrow> nat \<Rightarrow> state \<Rightarrow> error + state" where
  "cell4 lib e st =
     bind_e (var (X_scaled st)) (\<lambda>X.
       let input_dim = shape1 X; reconstructions = reconstruct lib e input_dim X in
       bind_e (keras_mse X reconstructions) (\<lambda>errors.
         let t = np_mean errors + 3 * np_std errors in
         bind_e (var (df_encoded st)) (\<lambda>r.
         bind_e (heap_setitem (heap st) r (Name ''anomaly_autoencoder'')
                   (IntCol (greater_astype_int errors t))) (\<lambda>h'.
           Inr (st\<lparr>heap := h', mse := Some errors, threshold := Some t\<rparr>)))))"

subsection \<open>Cell 5: evaluation against the known labels\<close>

text \<open>
  Comparisons of a column with a scalar are element-wise. A number never equals a
  string, so \<^verbatim>\<open>!=\<close> against a string is true on every entry of a numeric column and
  \<^verbatim>\<open>==\<close> against a number is false on every entry of a string column.
\<close>

fun series_ne_str :: "column \<Rightarrow> string \<Rightarrow> bool list" where
  "series_ne_str (ObjCol ys) s = map (\<lambda>y. y \<noteq> s) ys"
| "series_ne_str (IntCol xs) s = map (\<lambda>x. True) xs"
| "series_ne_str (FloatCol xs) s = map (\<lambda>x. True) xs"

fun series_eq_int :: "column \<Rightarrow> int \<Rightarrow> bool list" where
  "series_eq_int (IntCol xs) v = map (\<lambda>x. x = v) xs"
| "series_eq_int (FloatCol xs) v = map (\<lambda>x. x = real_of_int v) xs"
| "series_eq_int (ObjCol ys) v = map (\<lambda>y. False) ys"

definition astype_int :: "bool list \<Rightarrow> int list" where
  "astype_int bs = map (\<lambda>b. if b then 1 else 0) bs"

text \<open>
  \<^verbatim>\<open>classification_report(y_true, y_pred)\<close> takes two arrays of class labels of one
  length. A boolean array counts as the labels 0 and 1 (\<open>True\<close> is 1). Integer columns
  and float columns of whole numbers are class labels; other float columns and, next to
  numeric labels, string columns are rejected. The report has one line per label that
  occurs in either array, in increasing order, with precision, recall, F1 and support;
  a ratio with denominator zero is reported as 0. (The accuracy and average lines of the
  printed text are not modelled.)
\<close>

fun class_labels :: "column \<Rightarrow> error + int list" where
  "class_labels (IntCol xs) = Inr xs"
| "class_labels (FloatCol xs) =
     (if list_all (\<lambda>x. real_of_int \<lfloor>x\<rfloor> = x) xs then Inr (map floor xs) else Inl ValueError)"
| "class_labels (ObjCol ys) = Inl ValueError"

definition class_metrics :: "int list \<Rightarrow> int list \<Rightarrow> int \<Rightarrow> metrics" where
  "class_metrics y_true y_pred l =
     (let tp = length (filter (\<lambda>(t, p). t = l \<and> p = l) (zip y_true y_pred));
          n_pred = length (filter (\<lambda>p. p = l) y_pred);
          n_true = length (filter (\<lambda>t. t = l) y_true);
          p = (if n_pred = 0 then 0 else real tp / real n_pred);
          r = (if n_true = 0 then 0 else real tp / real n_true);
          f = (if p + r = 0 then 0 else 2 * p * r / (p + r))
      in \<lparr>precision = p, recall = r, f1_score = f, support = n_true\<rparr>)"

definition classification_report :: "int list \<Rightarrow> int list \<Rightarrow> error + report" where
  "classification_report y_true y_pred =
     (if length y_true \<noteq> length y_pred then Inl ValueError
      else Inr (map (\<lambda>l. (l, class_metrics y_true y_pred l)) (np_unique (y_true @ y_pred))))"

text \<open>
  The statements of the cell, in the order in which they would run, with the two
  headings as they were meant:
  \<^verbatim>\<open>
  df_encoded['true_label'] = (df[41] != 'normal.').astype(int)
  print("Isolation Forest:\n")
  print(classification_report(df_encoded['true_label'], df_encoded['anomaly_iforest'] == -1))
  print("Autoencoder:\n")
  print(classification_report(df_encoded['true_label'], df_encoded['anomaly_autoencoder']))
  \<close>
  The right-hand side of the first statement is a series over the rows of \<^verbatim>\<open>df\<close>;
  \<^verbatim>\<open>df_encoded\<close> is a copy of \<^verbatim>\<open>df\<close> and has the same rows, so the assignment is
  row by row. (For a series of another length pandas would align on the index; here
  that is an error, as for an array.)
\<close>

definition cell5_statements :: "state \<Rightarrow> error + state" where
  "cell5_statements st =
     bind_e (var (df st)) (\<lambda>d.
     bind_e (heap_getitem (heap st) d (Pos 41)) (\<lambda>raw.
     bind_e (var (df_encoded st)) (\<lambda>r.
     bind_e (heap_setitem (heap st) r (Name ''true_label'')
               (IntCol (astype_int (series_ne_str raw ''normal.'')))) (\<lambda>h'.
     bind_e (heap_getitem h' r (Name ''true_label'')) (\<lambda>tl.
     bind_e (class_labels tl) (\<lambda>y_true.
     bind_e (heap_getitem h' r (Name ''anomaly_iforest'')) (\<lambda>ifo.
     bind_e (classification_report y_true (astype_int (series_eq_int ifo (- 1)))) (\<lambda>rep1.
     bind_e (heap_getitem h' r (Name ''anomaly_autoencoder'')) (\<lambda>ae.
     bind_e (class_labels ae) (\<lambda>y_ae.
     bind_e (classification_report y_true y_ae) (\<lambda>rep2.
       Inr (st\<lparr>heap := h',
              printed := printed st @
                [Text (''Isolation Forest:'' @ [CHR 0x0A]), Report rep1,
                 Text (''Autoencoder:'' @ [CHR 0x0A]), Report rep2]\<rparr>))))))))))))"

text \<open>
  The cell as the notebook file holds it. In the file the line break of each heading is
  not the two characters \<^verbatim>\<open>\n\<close> but a line break inside the string literal, so
  each heading is spread over two lines. The lines of the cell:
\<close>

definition cell5_source :: "string list" where
  "cell5_source =
     [''from sklearn.metrics import classification_report'',
      [],
      ''df_encoded['true_label'] = (df[41] != 'normal.').astype(int)'',
      [],
      ''print('' @ [CHR 0x22] @ ''Isolation Forest:'',
      [CHR 0x22] @ '')'',
      ''print(classification_report(df_encoded['true_label'], df_encoded['anomaly_iforest'] == -1))'',
      [],
      ''print('' @ [CHR 0x22] @ ''Autoencoder:'',
      [CHR 0x22] @ '')'',
      ''print(classification_report(df_encoded['true_label'], df_encoded['anomaly_autoencoder']))'']"

text \<open>
  A string literal opened by one quote character (\<open>CHR 0x22\<close> is the double quote,
  \<open>CHR 0x27\<close> the single quote) must close on the line where it opens; inside it a
  backslash (\<open>CHR 0x5C\<close>) takes the next character with it; outside it \<^verbatim>\<open>#\<close> starts a
  comment. A line that ends inside a literal makes the cell a \<^verbatim>\<open>SyntaxError\<close>
  (unterminated string literal), and then no statement of the cell runs.
\<close>

datatype lexer = Code | In_string char

fun scan_line :: "lexer \<Rightarrow> string \<Rightarrow> lexer" where
  "scan_line s [] = s"
| "scan_line Code (c # cs) =
     (if c = CHR ''#'' then Code
      else if c = CHR 0x22 \<or> c = CHR 0x27 then scan_line (In_string c) cs
      else scan_line Code cs)"
| "scan_line (In_string q) [c] = (if c = q then Code else In_string q)"
| "scan_line (In_string q) (c # c' # cs) =
     (if c = CHR 0x5C then scan_line (In_string q) cs
      else if c = q then scan_line Code (c' # cs)
      else scan_line (In_string q) (c' # cs))"

definition unterminated_string_literal :: "string \<Rightarrow> bool" where
  "unterminated_string_literal line \<longleftrightarrow> scan_line Code line \<noteq> Code"

definition compiles :: "string list \<Rightarrow> bool" where
  "compiles source \<longleftrightarrow> list_all (\<lambda>line. \<not> unterminated_string_literal line) source"

definition cell5 :: "state \<Rightarrow> error + state" where
  "cell5 st = (if compiles cell5_source then cell5_statements st else Inl SyntaxError)"

subsection \<open>The whole notebook\<close>

text \<open>
  The cells run in order; the first error ends the run. \<open>e\<close> is the ambient
  randomness of the run, \<open>parsed\<close> the table read from the file.
\<close>

fun run :: "(state \<Rightarrow> error + state) list \<Rightarrow> state \<Rightarrow> error + state" where
  "run [] st = Inr st"
| "run (c # cs) st = (case c st of Inl e \<Rightarrow> Inl e | Inr st' \<Rightarrow> run cs st')"

definition cells :: "models \<Rightarrow> nat \<Rightarrow> frame \<Rightarrow> (state \<Rightarrow> error + state) list" where
  "cells lib e parsed = [cell1 parsed, cell2, cell3 lib e, cell4 lib e, cell5]"

definition notebook :: "models \<Rightarrow> nat \<Rightarrow> frame \<Rightarrow> error + state" where
  "notebook lib e parsed = run (cells lib e parsed) init_state"

subsection \<open>Notions used in the statements\<close>

text \<open>
  The working copy once the loop of cell 2 has run (every string column replaced by its
  codes), and the numeric columns that the scaler then receives (all columns but the one
  labelled 41). Both are shown below to be what cell 2 computes on a loaded table.
\<close>

definition encoded :: "frame \<Rightarrow> frame" where
  "encoded fr = map (\<lambda>(k, v). (k, if is_object v then LabelEncoder_fit_transform v else v)) fr"

fun column_values :: "column \<Rightarrow> real list" where
  "column_values (IntCol xs) = map real_of_int xs"
| "column_values (FloatCol xs) = xs"
| "column_values (ObjCol ys) = []"

definition feature_columns :: "frame \<Rightarrow> real list list" where
  "feature_columns fr =
     map (\<lambda>(k, v). column_values v) (filter (\<lambda>(k, v). k \<noteq> Pos 41) (encoded fr))"

text \<open>Column \<open>j\<close> of a two-dimensional array.\<close>

definition array_column :: "real list list \<Rightarrow> nat \<Rightarrow> real list" where
  "array_column X j = map (\<lambda>row. row ! j) X"

text \<open>Every column of a frame has the frame's row count, as in any pandas frame.\<close>

definition rect :: "frame \<Rightarrow> bool" where
  "rect fr \<longleftrightarrow> (\<forall>x \<in> set fr. col_len (snd x) = nrows fr)"

definition replace_col :: "label \<Rightarrow> column \<Rightarrow> label \<times> column \<Rightarrow> label \<times> column" where
  "replace_col l c = (\<lambda>(k, v). if k = l then (k, c) else (k, v))"



text \<open>The state once cell 1 has run on a fresh notebook.\<close>

definition loaded_state :: "frame \<Rightarrow> state" where
  "loaded_state parsed = init_state\<lparr>heap := [parsed], df := Some 0\<rparr>"

section \<open>Example inputs\<close>

text \<open>
  Stand-ins for the two trained models, used only to run the cells on concrete inputs:
  the decision value of a row is its first entry, and every row is reconstructed as zeros.
\<close>

definition errors17 :: "real list" where
  "errors17 = replicate 16 0 @ [289]"

definition X17 :: "real list list" where
  "X17 = replicate 16 [0] @ [[17]]"

definition example_models :: models where
  "example_models = \<lparr>decision_function = (\<lambda>c s X. map hd X),
     reconstruct = (\<lambda>e d X. map (map (\<lambda>x. 0)) X)\<rparr>"

definition state17 :: state where
  "state17 = init_state\<lparr>heap := [[(Pos 0, FloatCol (replicate 16 0 @ [17]))]],
     df_encoded := Some 0, X_scaled := Some X17\<rparr>"

definition labelled17 :: frame where
  "labelled17 = [(Pos 0, FloatCol (replicate 16 0 @ [17])),
     (Name ''anomaly_autoencoder'', IntCol (replicate 16 0 @ [1]))]"

text \<open>
  A table as the reader returns it: the columns labelled by position. The example table
  has four rows, 41 feature columns (a float column, a string column, a constant integer
  column and 38 equal integer columns) and the label column.
\<close>

definition positional :: "column list \<Rightarrow> frame" where
  "positional cs = zip (map Pos [0..<length cs]) cs"

definition example_features :: "column list" where
  "example_features =
     [FloatCol [0, 0, 2, 2], ObjCol [''udp'', ''tcp'', ''udp'', ''tcp''], IntCol [5, 5, 5, 5]] @
     replicate 38 (IntCol [1, 1, 3, 3])"

definition example_labels :: "string list" where
  "example_labels = [''normal.'', ''smurf.'', ''Normal.'', ''normal.'']"

definition example_table :: "string list \<Rightarrow> frame" where
  "example_table labels = positional (example_features @ [ObjCol labels])"

definition example_state :: "string list \<Rightarrow> state" where
  "example_state labels = init_state\<lparr>heap := [example_table labels], df := Some 0\<rparr>"

text \<open>
  A second label column for the same features, and the states of the run on the example
  table after cells 2, 3 and 4, for any four labels.
\<close>

definition example_labels2 :: "string list" where
  "example_labels2 = [''smurf.'', ''neptune.'', ''normal.'', ''normal.'']"

definition example_X :: "real list list" where
  "example_X =
     [[- 1, 1, 0] @ replicate 38 (- 1), [- 1, - 1, 0] @ replicate 38 (- 1),
      [1, 1, 0] @ replicate 38 1, [1, - 1, 0] @ replicate 38 1]"

definition example_working :: "string list \<Rightarrow> frame \<Rightarrow> frame" where
  "example_working labels added = encoded (example_table labels) @ added"

definition example_state2 :: "string list \<Rightarrow> state" where
  "example_state2 labels = (example_state labels)\<lparr>
     heap := [example_table labels, example_working labels []],
     df_encoded := Some 1, X_scaled := Some example_X\<rparr>"

definition example_state3 :: "string list \<Rightarrow> state" where
  "example_state3 labels = (example_state2 labels)\<lparr>
     heap := [example_table labels,
       example_working labels [(Name ''anomaly_iforest'', IntCol [- 1, - 1, 1, 1])]]\<rparr>"

definition example_state4 :: "string list \<Rightarrow> state" where
  "example_state4 labels = (example_state3 labels)\<lparr>
     heap := [example_table labels,
       example_working labels [(Name ''anomaly_iforest'', IntCol [- 1, - 1, 1, 1]),
                               (Name ''anomaly_autoencoder'', IntCol [0, 0, 0, 0])]],
     mse := Some [40 / 41, 40 / 41, 40 / 41, 40 / 41], threshold := Some (40 / 41)\<rparr>"



section \<open>Properties\<close>

subsection \<open>Sequencing, frames and the heap\<close>

lemma bind_e_Inr [simp]: "bind_e (Inr x) f = f x"
  by (simp add: bind_e_def)

lemma bind_e_Inl [simp]: "bind_e (Inl e) f = Inl e"
  by (simp add: bind_e_def)

lemma bind_e_eq_Inr: "bind_e m f = Inr y \<longleftrightarrow> (\<exists>x. m = Inr x \<and> f x = Inr y)"
  by (cases m) simp_all

lemma var_Some [simp]: "var (Some x) = Inr x"
  by (simp add: var_def)

lemma var_None [simp]: "var None = Inl NameError"
  by (simp add: var_def)

lemma var_eq_Inr [simp]: "var v = Inr x \<longleftrightarrow> v = Some x"
  by (cases v) (simp_all add: var_def)

lemma deref_eq_Inr: "deref h r = Inr fr \<longleftrightarrow> r < length h \<and> fr = h ! r"
  by (auto simp: deref_def)

lemma map_of_replace:
  "map_of (map (\<lambda>(k, v). if k = l then (k, c) else (k, v)) fr) l' =
     (if l' = l then map_option (\<lambda>v. c) (map_of fr l) else map_of fr l')"
  by (induction fr) auto

lemma getitem_setitem_same:
  assumes "setitem fr l c = Inr fr'"
  shows "getitem fr' l = Inr c"
proof (cases "l \<in> set (map fst fr)")
  case True
  then obtain v where "map_of fr l = Some v"
    by (metis map_of_eq_None_iff not_Some_eq set_map)
  with assms True show ?thesis
    by (auto simp: setitem_def getitem_def map_of_replace split: if_splits)
next
  case False
  then have "map_of fr l = None"
    by (simp add: map_of_eq_None_iff)
  with assms False show ?thesis
    by (auto simp: setitem_def getitem_def map_add_def split: if_splits)
qed

lemma getitem_setitem_other:
  assumes "setitem fr l c = Inr fr'" and "l' \<noteq> l"
  shows "getitem fr' l' = getitem fr l'"
  using assms
  by (auto simp: setitem_def getitem_def map_of_replace map_add_def
      split: if_splits option.splits)

lemma heap_setitem_eq_Inr:
  "heap_setitem h r l c = Inr h' \<longleftrightarrow>
     r < length h \<and> (\<exists>fr'. setitem (h ! r) l c = Inr fr' \<and> h' = h[r := fr'])"
  by (auto simp: heap_setitem_def bind_e_eq_Inr deref_eq_Inr)

lemma heap_getitem_setitem_same:
  "heap_setitem h r l c = Inr h' \<Longrightarrow> heap_getitem h' r l = Inr c"
  by (auto simp: heap_setitem_eq_Inr heap_getitem_def deref_def getitem_setitem_same)

lemma heap_getitem_setitem_other:
  "heap_setitem h r l c = Inr h' \<Longrightarrow> l' \<noteq> l \<Longrightarrow> heap_getitem h' r l' = heap_getitem h r l'"
  by (auto simp: heap_setitem_eq_Inr heap_getitem_def deref_def getitem_setitem_other)

lemma heap_setitem_frame:
  "heap_setitem h r l c = Inr h' \<Longrightarrow> r' \<noteq> r \<Longrightarrow> h' ! r' = h ! r'"
  by (auto simp: heap_setitem_eq_Inr)

lemma heap_setitem_length:
  "heap_setitem h r l c = Inr h' \<Longrightarrow> length h' = length h"
  by (auto simp: heap_setitem_eq_Inr)

subsection \<open>The encoding loop\<close>

lemma rectD: "rect g \<Longrightarrow> (k, v) \<in> set g \<Longrightarrow> col_len v = nrows g"
  unfolding rect_def by fastforce

lemma col_len_LabelEncoder [simp]: "col_len (LabelEncoder_fit_transform c) = col_len c"
  by (cases c) (simp_all add: encode_values_def)

lemma is_object_LabelEncoder [simp]: "\<not> is_object (LabelEncoder_fit_transform c)"
  by (cases c) simp_all

lemma fst_replace_col [simp]: "fst (replace_col l c x) = fst x"
  by (cases x) (simp add: replace_col_def)

lemma setitem_existing:
  assumes "(l, c) \<in> set g" and "rect g" and "col_len c' = col_len c"
  shows "setitem g l c' = Inr (map (replace_col l c') g)"
proof -
  from assms(1) have "l \<in> fst ` set g" by (rule image_eqI [rotated]) simp
  moreover from assms have "col_len c' = nrows g" by (simp add: rectD)
  ultimately show ?thesis by (simp add: setitem_def replace_col_def)
qed

lemma nrows_replace:
  assumes "rect g" and "(l, c) \<in> set g" and "col_len c' = col_len c"
  shows "nrows (map (replace_col l c') g) = nrows g"
proof (cases g)
  case Nil
  then show ?thesis by simp
next
  case (Cons x xs)
  obtain k v where x: "x = (k, v)" by (cases x)
  from Cons x have "(k, v) \<in> set g" by simp
  then have "col_len v = nrows g" by (rule rectD [OF assms(1)])
  moreover from assms have "col_len c' = nrows g" by (simp add: rectD)
  ultimately show ?thesis using Cons x by (simp add: nrows_def replace_col_def)
qed

lemma rect_replace:
  assumes "rect g" and "(l, c) \<in> set g" and "col_len c' = col_len c"
  shows "rect (map (replace_col l c') g)"
  unfolding rect_def
proof
  fix y assume "y \<in> set (map (replace_col l c') g)"
  then obtain x where x: "x \<in> set g" and y: "y = replace_col l c' x" by auto
  obtain k v where kv: "x = (k, v)" by (cases x)
  from assms(1) x kv have "col_len v = nrows g" by (simp add: rectD)
  moreover from assms have "col_len c' = nrows g" by (simp add: rectD)
  ultimately have "col_len (snd y) = nrows g" using y kv by (simp add: replace_col_def)
  then show "col_len (snd y) = nrows (map (replace_col l c') g)"
    by (simp only: nrows_replace [OF assms])
qed

lemma encode_loop_general:
  assumes "distinct (map fst g)" and "rect g" and "r < length h" and "h ! r = g"
    and "set ls \<subseteq> set (map fst g)" and "distinct ls"
  shows "encode_loop ls r h =
           Inr (h[r := map (\<lambda>(k, v). if k \<in> set ls then (k, LabelEncoder_fit_transform v)
                                      else (k, v)) g])"
  using assms
proof (induction ls arbitrary: h g)
  case Nil
  have "h[r := g] = h" using Nil.prems(4) by (metis list_update_id)
  then show ?case by (simp add: case_prod_unfold)
next
  case (Cons col cols)
  from Cons.prems obtain c where c: "(col, c) \<in> set g" by auto
  with Cons.prems have mc: "map_of g col = Some c" by simp
  let ?c' = "LabelEncoder_fit_transform c"
  let ?g' = "map (replace_col col ?c') g"
  have get: "heap_getitem h r col = Inr c"
    using Cons.prems mc by (simp add: heap_getitem_def deref_def getitem_def)
  have put: "heap_setitem h r col ?c' = Inr (h[r := ?g'])"
    using Cons.prems setitem_existing [OF c Cons.prems(2), of ?c']
    by (simp add: heap_setitem_def deref_def)
  have fst: "map fst ?g' = map fst g" by simp
  have IH: "encode_loop cols r (h[r := ?g']) =
      Inr ((h[r := ?g'])[r := map (\<lambda>(k, v). if k \<in> set cols
            then (k, LabelEncoder_fit_transform v) else (k, v)) ?g'])"
  proof (rule Cons.IH)
    show "distinct (map fst ?g')" using Cons.prems(1) by (simp only: fst)
    show "rect ?g'" using rect_replace [OF Cons.prems(2) c, of ?c'] by simp
    show "r < length (h[r := ?g'])" using Cons.prems by simp
    show "h[r := ?g'] ! r = ?g'" using Cons.prems by simp
    show "set cols \<subseteq> set (map fst ?g')" using Cons.prems(5) by (simp only: fst) simp
    show "distinct cols" using Cons.prems by simp
  qed
  have pw: "(case replace_col col ?c' x of (k, v) \<Rightarrow>
           if k \<in> set cols then (k, LabelEncoder_fit_transform v) else (k, v)) =
        (case x of (k, v) \<Rightarrow>
           if k \<in> set (col # cols) then (k, LabelEncoder_fit_transform v) else (k, v))"
    if "x \<in> set g" for x
  proof -
    obtain k v where x: "x = (k, v)" by (cases x)
    show ?thesis
    proof (cases "k = col")
      case True
      with that x Cons.prems(1) mc have "v = c" by simp
      with True x Cons.prems(6) show ?thesis by (simp add: replace_col_def)
    next
      case False
      with x show ?thesis by (simp add: replace_col_def)
    qed
  qed
  have eq: "map (\<lambda>(k, v). if k \<in> set cols then (k, LabelEncoder_fit_transform v) else (k, v)) ?g'
      = map (\<lambda>(k, v). if k \<in> set (col # cols) then (k, LabelEncoder_fit_transform v)
                       else (k, v)) g"
    unfolding map_map
    by (rule map_cong [OF refl]) (simp only: o_apply pw)
  show ?case
    by (simp only: encode_loop.simps get put sum.case IH list_update_overwrite eq)
qed

subsection \<open>Cell 2 on a loaded table\<close>

lemma loaded_table_distinct: "loaded_table fr \<Longrightarrow> distinct (map fst fr)"
  by (simp add: loaded_table_def distinct_map inj_on_def)

lemma loaded_table_rect: "loaded_table fr \<Longrightarrow> rect fr"
  by (auto simp: loaded_table_def rect_def list_all_iff)

lemma loaded_table_label:
  assumes "loaded_table fr" and "j < length fr"
  shows "fst (fr ! j) = Pos j"
proof -
  from assms have "map fst fr ! j = map Pos [0..<length fr] ! j"
    by (simp add: loaded_table_def)
  with assms(2) show ?thesis by simp
qed

lemma loaded_table_mem:
  assumes "loaded_table fr" and "j < length fr"
  shows "Pos j \<in> set (map fst fr)"
  using assms by (simp add: loaded_table_def)

lemma select_dtypes_object_distinct:
  "distinct (map fst fr) \<Longrightarrow> distinct (select_dtypes_object fr)"
  by (simp add: select_dtypes_object_def distinct_map_filter)

lemma select_dtypes_object_subset: "set (select_dtypes_object fr) \<subseteq> set (map fst fr)"
  by (auto simp: select_dtypes_object_def)

lemma select_dtypes_object_iff:
  assumes "distinct (map fst fr)" and "(k, v) \<in> set fr"
  shows "k \<in> set (select_dtypes_object fr) \<longleftrightarrow> is_object v"
proof
  assume "k \<in> set (select_dtypes_object fr)"
  then obtain v' where "(k, v') \<in> set fr" and "is_object v'"
    by (auto simp: select_dtypes_object_def)
  moreover from this assms have "v' = v" by (meson eq_key_imp_eq_value)
  ultimately show "is_object v" by simp
next
  assume "is_object v"
  with assms(2) show "k \<in> set (select_dtypes_object fr)"
    by (force simp: select_dtypes_object_def)
qed

lemma encode_loop_encoded:
  assumes "distinct (map fst fr)" and "rect fr" and "r < length h" and "h ! r = fr"
  shows "encode_loop (select_dtypes_object fr) r h = Inr (h[r := encoded fr])"
proof -
  have "(case x of (k, v) \<Rightarrow> if k \<in> set (select_dtypes_object fr)
            then (k, LabelEncoder_fit_transform v) else (k, v)) =
        (case x of (k, v) \<Rightarrow> (k, if is_object v then LabelEncoder_fit_transform v else v))"
    if "x \<in> set fr" for x
  proof -
    obtain k v where x: "x = (k, v)" by (cases x)
    with that assms(1) show ?thesis by (simp add: select_dtypes_object_iff)
  qed
  then have "map (\<lambda>(k, v). if k \<in> set (select_dtypes_object fr)
                 then (k, LabelEncoder_fit_transform v) else (k, v)) fr = encoded fr"
    unfolding encoded_def by (intro map_cong [OF refl])
  then show ?thesis
    using encode_loop_general [OF assms select_dtypes_object_subset
        select_dtypes_object_distinct [OF assms(1)]]
    by simp
qed


lemma map_fst_encoded [simp]: "map fst (encoded fr) = map fst fr"
  by (simp add: encoded_def case_prod_unfold comp_def)

lemma length_encoded [simp]: "length (encoded fr) = length fr"
  by (simp add: encoded_def)

lemma encoded_not_object: "x \<in> set (encoded fr) \<Longrightarrow> \<not> is_object (snd x)"
  by (auto simp: encoded_def split: if_splits)

lemma nrows_encoded [simp]: "nrows (encoded fr) = nrows fr"
  by (cases fr) (auto simp: nrows_def encoded_def)

lemma rect_encoded:
  assumes "rect fr"
  shows "rect (encoded fr)"
  unfolding rect_def
proof
  fix x assume "x \<in> set (encoded fr)"
  then obtain k v where kv: "(k, v) \<in> set fr"
    and x: "x = (k, if is_object v then LabelEncoder_fit_transform v else v)"
    by (auto simp: encoded_def)
  from x have "col_len (snd x) = col_len v" by simp
  also have "\<dots> = nrows fr" by (rule rectD [OF assms kv])
  finally show "col_len (snd x) = nrows (encoded fr)" by simp
qed

lemma numeric_columns_no_object:
  "\<forall>x \<in> set g. \<not> is_object (snd x) \<Longrightarrow>
     numeric_columns g = Inr (map (\<lambda>(k, v). column_values v) g)"
  by (induction g rule: numeric_columns.induct) simp_all

lemma col_len_column_values: "\<not> is_object v \<Longrightarrow> length (column_values v) = col_len v"
  by (cases v) simp_all

lemma features_nrows:
  assumes "rect g" and "filter (\<lambda>(k, v). k \<noteq> l) g \<noteq> []"
  shows "nrows (filter (\<lambda>(k, v). k \<noteq> l) g) = nrows g"
proof -
  from assms(2) obtain x xs where eq: "filter (\<lambda>(k, v). k \<noteq> l) g = x # xs"
    by (cases "filter (\<lambda>(k, v). k \<noteq> l) g") auto
  then have "x \<in> set (filter (\<lambda>(k, v). k \<noteq> l) g)" by simp
  then have "x \<in> set g" by simp
  with assms(1) have "col_len (snd x) = nrows g" by (simp add: rect_def)
  with eq show ?thesis by (simp add: nrows_def case_prod_unfold)
qed

lemma loaded_table_features_nonempty:
  assumes "loaded_table fr" and "41 < length fr"
  shows "filter (\<lambda>(k, v). k \<noteq> Pos 41) (encoded fr) \<noteq> []"
proof -
  from assms(2) have "0 < length fr" by linarith
  then have "encoded fr ! 0 \<in> set (encoded fr)" by simp
  moreover have "fst (encoded fr ! 0) = Pos 0"
    using loaded_table_label [OF assms(1) \<open>0 < length fr\<close>] \<open>0 < length fr\<close>
    by (simp add: encoded_def case_prod_unfold)
  ultimately have "encoded fr ! 0 \<in> set (filter (\<lambda>(k, v). k \<noteq> Pos 41) (encoded fr))"
    by (simp add: case_prod_unfold)
  then show ?thesis by (metis empty_iff empty_set)
qed

lemma scaler_on_features:
  assumes "loaded_table fr" and "41 < length fr"
  shows "StandardScaler_fit_transform (filter (\<lambda>(k, v). k \<noteq> Pos 41) (encoded fr)) =
           Inr (rows_of (nrows fr) (map scale_column (feature_columns fr)))"
proof -
  let ?g = "filter (\<lambda>(k, v). k \<noteq> Pos 41) (encoded fr)"
  have ne: "?g \<noteq> []" by (rule loaded_table_features_nonempty [OF assms])
  have num: "numeric_columns ?g = Inr (feature_columns fr)"
    unfolding feature_columns_def
    by (rule numeric_columns_no_object) (auto dest: encoded_not_object)
  have n: "nrows ?g = nrows fr"
    using features_nrows [OF rect_encoded [OF loaded_table_rect [OF assms(1)]] ne] by simp
  have "feature_columns fr \<noteq> []" using ne by (simp add: feature_columns_def)
  moreover have "0 < nrows fr" using assms(1) by (simp add: loaded_table_def)
  ultimately show ?thesis
    by (simp add: StandardScaler_fit_transform_def num n)
qed

lemma cell2_loaded:
  assumes "df st = Some d" and "d < length (heap st)" and "heap st ! d = fr"
    and "loaded_table fr" and "41 < length fr"
  shows "cell2 st =
           Inr (st\<lparr>heap := heap st @ [encoded fr], df_encoded := Some (length (heap st)),
                  X_scaled := Some (rows_of (nrows fr) (map scale_column (feature_columns fr)))\<rparr>)"
proof -
  let ?r = "length (heap st)"
  have loop: "encode_loop (select_dtypes_object fr) ?r (heap st @ [fr]) =
                Inr (heap st @ [encoded fr])"
    using encode_loop_encoded [OF loaded_table_distinct [OF assms(4)]
        loaded_table_rect [OF assms(4)], of ?r "heap st @ [fr]"]
    by simp
  have drop: "drop_columns (encoded fr) (Pos 41) =
                Inr (filter (\<lambda>(k, v). k \<noteq> Pos 41) (encoded fr))"
    using loaded_table_mem [OF assms(4,5)] by (simp add: drop_columns_def)
  show ?thesis
    using assms(1-3)
    by (simp add: cell2_def deref_def Let_def loop drop scaler_on_features [OF assms(4,5)])
qed

subsection \<open>Shape of the normalised matrix\<close>



lemma feature_column_length:
  assumes "loaded_table fr" and "c \<in> set (feature_columns fr)"
  shows "length c = nrows fr"
proof -
  from assms(2) obtain x where x: "x \<in> set (encoded fr)" and c: "c = column_values (snd x)"
    by (auto simp: feature_columns_def)
  from x have "\<not> is_object (snd x)" by (rule encoded_not_object)
  then have "length c = col_len (snd x)" using c by (simp add: col_len_column_values)
  also have "\<dots> = nrows (encoded fr)"
    using rect_encoded [OF loaded_table_rect [OF assms(1)]] x by (simp add: rect_def)
  finally show ?thesis by simp
qed

lemma length_rows_of [simp]: "length (rows_of n cols) = n"
  by (simp add: rows_of_def)


lemma array_column_rows_of:
  assumes "j < length cols" and "length (cols ! j) = n"
  shows "array_column (rows_of n cols) j = cols ! j"
proof -
  have "map ((!) (cols ! j)) [0..<length (cols ! j)] = cols ! j" by (rule map_nth)
  with assms show ?thesis by (auto simp: array_column_def rows_of_def comp_def)
qed

lemma length_scale_column [simp]: "length (scale_column xs) = length xs"
  by (simp add: scale_column_def)

subsection \<open>Mean and standard deviation of a scaled column\<close>





lemma np_var_nonneg: "0 \<le> np_var xs"
proof -
  have "0 \<le> sum_list (map (\<lambda>x. (x - np_mean xs)\<^sup>2) xs)"
    by (rule sum_list_nonneg) auto
  then show ?thesis by (simp add: np_var_def np_mean_def [of "map _ _"])
qed


lemma scaler_scale_not_constant:
  assumes "\<not> is_constant_feature (np_var xs) (np_mean xs) (length xs)"
  shows "scaler_scale xs = np_std xs" and "np_std xs \<noteq> 0"
proof -
  show "scaler_scale xs = np_std xs"
    using assms by (simp add: scaler_scale_def handle_zeros_in_scale_def np_std_def)
  have "np_var xs \<noteq> 0"
    using assms by (auto simp: is_constant_feature_def)
  then show "np_std xs \<noteq> 0" by (simp add: np_std_def)
qed

lemma scaler_scale_zero_variance:
  assumes "np_std xs = 0"
  shows "scaler_scale xs = 1"
proof -
  from assms have "np_var xs = 0" by (simp add: np_std_def)
  then show ?thesis
    by (simp add: scaler_scale_def handle_zeros_in_scale_def is_constant_feature_def)
qed

lemma scale_column_nondegenerate:
  "\<not> is_constant_feature (np_var xs) (np_mean xs) (length xs) \<Longrightarrow>
     scale_column xs = map (\<lambda>x. (x - np_mean xs) / np_std xs) xs"
  by (simp add: scale_column_def scaler_scale_not_constant)

lemma zero_std_constant:
  assumes "np_std xs = 0" and "x \<in> set xs"
  shows "x = np_mean xs"
proof -
  from assms(2) have ne: "xs \<noteq> []" by auto
  from assms(1) have "np_var xs = 0" by (simp add: np_std_def)
  with ne have "sum_list (map (\<lambda>x. (x - np_mean xs)\<^sup>2) xs) = 0"
    by (simp add: np_var_def np_mean_def [of "map _ _"])
  moreover have "\<forall>y \<in> set (map (\<lambda>x. (x - np_mean xs)\<^sup>2) xs). 0 \<le> y" by auto
  ultimately have "\<forall>y \<in> set (map (\<lambda>x. (x - np_mean xs)\<^sup>2) xs). y = 0"
    by (simp only: sum_list_nonneg_eq_0_iff)
  with assms(2) show ?thesis by simp
qed

lemma scale_column_degenerate:
  assumes "np_std xs = 0"
  shows "scale_column xs = map (\<lambda>x. 0) xs"
  unfolding scale_column_def
  by (rule map_cong [OF refl]) (simp add: zero_std_constant [OF assms])

subsection \<open>The example table\<close>

lemma length_positional [simp]: "length (positional cs) = length cs"
  by (simp add: positional_def)

lemma map_fst_positional [simp]: "map fst (positional cs) = map Pos [0..<length cs]"
  by (simp add: positional_def)

lemma map_snd_positional [simp]: "map snd (positional cs) = cs"
  by (simp add: positional_def)

lemma nrows_positional: "nrows (positional (c # cs)) = col_len c"
  by (simp add: positional_def nrows_def upt_conv_Cons del: upt_Suc)

lemma loaded_table_positional:
  assumes "0 < col_len c" and "\<forall>c' \<in> set cs. col_len c' = col_len c"
  shows "loaded_table (positional (c # cs))"
  unfolding loaded_table_def
  using assms by (simp add: nrows_positional list_all_iff del: upt_Suc)

lemma positional_snoc:
  "positional (cs @ [c]) = positional cs @ [(Pos (length cs), c)]"
  by (simp add: positional_def)

lemma encoded_positional:
  "encoded (positional cs) =
     positional (map (\<lambda>v. if is_object v then LabelEncoder_fit_transform v else v) cs)"
  by (simp add: encoded_def positional_def zip_map2 case_prod_unfold)

lemma encoded_append: "encoded (a @ b) = encoded a @ encoded b"
  by (simp add: encoded_def)

lemma filter_positional:
  "filter (\<lambda>(k, v). k \<noteq> Pos (length cs)) (positional cs) = positional cs"
proof -
  have "\<forall>x \<in> set (positional cs). fst x \<noteq> Pos (length cs)"
  proof
    fix x assume "x \<in> set (positional cs)"
    then have "fst x \<in> set (map fst (positional cs))" by (simp del: map_fst_positional)
    then show "fst x \<noteq> Pos (length cs)" by auto
  qed
  then show ?thesis by (simp add: case_prod_unfold)
qed

lemma map_values_positional: "map (\<lambda>(k, v). f v) (positional xs) = map f xs"
proof -
  have "map (\<lambda>(k, v). f v) (positional xs) = map f (map snd (positional xs))"
    by (simp add: case_prod_unfold comp_def del: map_snd_positional)
  then show ?thesis by simp
qed

lemma feature_columns_positional:
  assumes "length cs = 41"
  shows "feature_columns (positional (cs @ [c])) =
           map (\<lambda>v. column_values (if is_object v then LabelEncoder_fit_transform v else v)) cs"
proof -
  let ?enc = "\<lambda>v. if is_object v then LabelEncoder_fit_transform v else v"
  have "encoded (positional (cs @ [c])) =
          positional (map ?enc cs) @ [(Pos (length (map ?enc cs)), ?enc c)]"
    by (simp add: positional_snoc encoded_append encoded_positional) (simp add: encoded_def)
  moreover have "length (map ?enc cs) = 41" using assms by simp
  ultimately have "filter (\<lambda>(k, v). k \<noteq> Pos 41) (encoded (positional (cs @ [c]))) =
      positional (map ?enc cs)"
    using filter_positional [of "map ?enc cs"] by simp
  then show ?thesis
    by (simp add: feature_columns_def map_values_positional comp_def)
qed

lemma length_example_features: "length example_features = 41"
  by (simp add: example_features_def)

lemma loaded_example_table:
  "length labels = 4 \<Longrightarrow> loaded_table (example_table labels)"
  unfolding example_table_def example_features_def
  by (simp only: append.simps) (rule loaded_table_positional, auto)

lemma length_example_table: "length (example_table labels) = 42"
  by (simp add: example_table_def length_example_features)

lemma nrows_example_table: "nrows (example_table labels) = 4"
  by (simp add: example_table_def example_features_def nrows_positional)

lemma encode_values_example: "encode_values [''udp'', ''tcp'', ''udp'', ''tcp''] = [1, 0, 1, 0]"
  by code_simp

lemma feature_columns_example:
  "feature_columns (example_table labels) =
     [[0, 0, 2, 2], [1, 0, 1, 0], [5, 5, 5, 5]] @ replicate 38 [1, 1, 3, 3]"
  unfolding example_table_def
  by (simp only: feature_columns_positional [OF length_example_features])
     (simp add: example_features_def encode_values_example)

lemma example_state_df: "df (example_state labels) = Some 0"
  by (simp add: example_state_def init_state_def)

lemma example_state_heap: "heap (example_state labels) = [example_table labels]"
  by (simp add: example_state_def init_state_def)

lemma loaded_example_labels: "loaded_table (example_table example_labels)"
  by (rule loaded_example_table) (simp add: example_labels_def)

lemma np_mean_0022: "np_mean [0, 0, 2, 2] = 1"
  by (simp add: np_mean_def)

lemma np_std_0022: "np_std [0, 0, 2, 2] = 1"
  by (simp add: np_std_def np_var_def np_mean_0022) (simp add: np_mean_def)

lemma np_std_5555: "np_std [5, 5, 5, 5] = 0"
  by (simp add: np_std_def np_var_def np_mean_def)

lemma cell2_example:
  "cell2 (example_state labels) =
     Inr ((example_state labels)\<lparr>heap := [example_table labels, encoded (example_table labels)],
            df_encoded := Some 1,
            X_scaled := Some (rows_of (nrows (example_table labels))
              (map scale_column (feature_columns (example_table labels))))\<rparr>)"
  if "length labels = 4"
  using cell2_loaded [OF example_state_df [of labels], of "example_table labels"]
    loaded_example_table [OF that]
  by (simp add: example_state_heap length_example_table)

lemma setitem_new:
  assumes "l \<notin> set (map fst fr)" and "col_len c = nrows fr"
  shows "setitem fr l c = Inr (fr @ [(l, c)])"
  using assms by (simp add: setitem_def)

lemma getitem_append:
  "getitem (fr @ added) l =
     (if l \<in> set (map fst fr) then getitem fr l else getitem added l)"
proof (cases "map_of fr l")
  case None
  then have "l \<notin> set (map fst fr)" by (simp add: map_of_eq_None_iff)
  with None show ?thesis by (simp add: getitem_def map_add_def del: map_of_eq_None_iff)
next
  case (Some v)
  then have "(l, v) \<in> set fr" by (rule map_of_SomeD)
  then have "l \<in> set (map fst fr)" by force
  with Some show ?thesis by (simp add: getitem_def map_add_def)
qed

lemma getitem_positional:
  assumes "j < length cs"
  shows "getitem (positional cs) (Pos j) = Inr (cs ! j)"
proof -
  have "map_of (zip (map Pos [0..<length cs]) cs) (map Pos [0..<length cs] ! j) = Some (cs ! j)"
    by (rule map_of_zip_nth) (simp_all add: assms distinct_map inj_on_def)
  with assms show ?thesis by (simp add: getitem_def positional_def)
qed


lemma example_working_labels:
  "Name s \<in> set (map fst (example_working labels added)) \<longleftrightarrow> Name s \<in> set (map fst added)"
  by (auto simp: example_working_def example_table_def)

lemma nrows_append: "fr \<noteq> [] \<Longrightarrow> nrows (fr @ added) = nrows fr"
  by (cases fr) (simp_all add: nrows_def)

lemma nrows_example_working [simp]: "nrows (example_working labels added) = 4"
proof -
  have "encoded (example_table labels) \<noteq> []"
    using length_example_table [of labels]
    by (metis length_encoded list.size(3) zero_neq_numeral)
  then show ?thesis
    by (simp add: example_working_def nrows_append nrows_example_table)
qed

lemma example_working_append:
  "example_working labels added @ extra = example_working labels (added @ extra)"
  by (simp add: example_working_def)

lemma setitem_example_working:
  assumes "Name s \<notin> set (map fst added)" and "col_len c = 4"
  shows "setitem (example_working labels added) (Name s) c = Inr (example_working labels (added @ [(Name s, c)]))"
proof -
  have "Name s \<notin> set (map fst (example_working labels added))"
    using assms(1) by (simp only: example_working_labels) simp
  from setitem_new [OF this] assms(2) show ?thesis
    by (simp add: example_working_append)
qed

lemma getitem_example_working:
  "getitem (example_working labels added) (Name s) = getitem added (Name s)"
  by (auto simp: example_working_def getitem_append example_table_def)

lemma np_var_of_std: "np_var xs = (np_std xs)\<^sup>2"
  by (simp add: np_std_def np_var_nonneg)

lemma not_constant_0022:
  "\<not> is_constant_feature (np_var [0, 0, 2, 2]) (np_mean [0, 0, 2, 2]) (length [0, 0, 2, 2])"
  by (simp add: np_var_of_std np_std_0022 np_mean_0022 is_constant_feature_def float64_eps_def
      power2_eq_square)

lemma scale_column_0022: "scale_column [0, 0, 2, 2] = [- 1, - 1, 1, 1]"
  by (simp add: scale_column_nondegenerate [OF not_constant_0022] np_std_0022 np_mean_0022)

lemma scale_column_5555: "scale_column [5, 5, 5, 5] = [0, 0, 0, 0]"
  by (simp add: scale_column_degenerate np_std_5555)

lemma np_mean_1010: "np_mean [1, 0, 1, 0] = 1 / 2"
  by (simp add: np_mean_def)

lemma np_std_1010: "np_std [1, 0, 1, 0] = 1 / 2"
proof -
  have "np_var [1, 0, 1, 0] = (1 / 2)\<^sup>2"
    by (simp add: np_var_def np_mean_1010) (simp add: np_mean_def power2_eq_square)
  then show ?thesis by (simp only: np_std_def real_sqrt_abs)
qed

lemma not_constant_1010:
  "\<not> is_constant_feature (np_var [1, 0, 1, 0]) (np_mean [1, 0, 1, 0]) (length [1, 0, 1, 0])"
  by (simp add: np_var_of_std np_std_1010 np_mean_1010 is_constant_feature_def float64_eps_def
      power2_eq_square)

lemma scale_column_1010: "scale_column [1, 0, 1, 0] = [1, - 1, 1, - 1]"
  by (simp add: scale_column_nondegenerate [OF not_constant_1010] np_std_1010 np_mean_1010)

lemma np_mean_1133: "np_mean [1, 1, 3, 3] = 2"
  by (simp add: np_mean_def)

lemma np_std_1133: "np_std [1, 1, 3, 3] = 1"
  by (simp add: np_std_def np_var_def np_mean_1133) (simp add: np_mean_def)

lemma not_constant_1133:
  "\<not> is_constant_feature (np_var [1, 1, 3, 3]) (np_mean [1, 1, 3, 3]) (length [1, 1, 3, 3])"
  by (simp add: np_var_of_std np_std_1133 np_mean_1133 is_constant_feature_def float64_eps_def
      power2_eq_square)

lemma scale_column_1133: "scale_column [1, 1, 3, 3] = [- 1, - 1, 1, 1]"
  by (simp add: scale_column_nondegenerate [OF not_constant_1133] np_std_1133 np_mean_1133)

lemma rows_of_4:
  "rows_of 4 cols = [map (\<lambda>c. c ! 0) cols, map (\<lambda>c. c ! 1) cols,
                     map (\<lambda>c. c ! 2) cols, map (\<lambda>c. c ! 3) cols]"
  by (simp add: rows_of_def upt_conv_Cons del: upt_Suc) (simp add: numeral_eq_Suc)

lemma example_X_eq:
  "rows_of (nrows (example_table labels))
     (map scale_column (feature_columns (example_table labels))) = example_X"
  by (simp add: nrows_example_table feature_columns_example rows_of_4 example_X_def
      scale_column_0022 scale_column_1010 scale_column_5555 scale_column_1133)

lemma cell1_example:
  "cell1 (example_table labels) init_state = Inr (example_state labels)"
  by (simp add: cell1_def example_state_def init_state_def)

lemma length_example_labels: "length example_labels = 4"
  by (simp add: example_labels_def)

lemma length_example_labels2: "length example_labels2 = 4"
  by (simp add: example_labels2_def)

lemma cell2_example_state:
  "length labels = 4 \<Longrightarrow> cell2 (example_state labels) = Inr (example_state2 labels)"
  by (simp add: cell2_example example_X_eq example_state2_def example_working_def)


lemma example_state2_simps:
  "heap (example_state2 labels) = [example_table labels, example_working labels []]"
  "df (example_state2 labels) = Some 0" "df_encoded (example_state2 labels) = Some 1"
  "X_scaled (example_state2 labels) = Some example_X" "printed (example_state2 labels) = []"
  by (simp_all add: example_state2_def example_state_def init_state_def)

lemma fit_predict_example:
  "IsolationForest_fit_predict example_models c rs e example_X = [- 1, - 1, 1, 1]"
  by (simp add: IsolationForest_fit_predict_def example_models_def example_X_def)

lemma cell3_example: "cell3 example_models e (example_state2 labels) = Inr (example_state3 labels)"
  by (simp add: cell3_def example_state2_simps fit_predict_example heap_setitem_def deref_def
      setitem_example_working example_state3_def)

lemma example_state3_simps:
  "heap (example_state3 labels) = [example_table labels,
     example_working labels [(Name ''anomaly_iforest'', IntCol [- 1, - 1, 1, 1])]]"
  "df (example_state3 labels) = Some 0" "df_encoded (example_state3 labels) = Some 1"
  "X_scaled (example_state3 labels) = Some example_X" "printed (example_state3 labels) = []"
  by (simp_all add: example_state3_def example_state2_simps)

lemma squared_error_zero: "map2 (\<lambda>a b. (b - a)\<^sup>2) y (map (\<lambda>x. 0) y) = map (\<lambda>a. a\<^sup>2) (y::real list)"
  by (induction y) simp_all

lemma keras_mse_example:
  "keras_mse example_X (map (map (\<lambda>x. 0)) example_X) =
     Inr [40 / 41, 40 / 41, 40 / 41, 40 / 41]"
proof -
  have "keras_mse X (map (map (\<lambda>x. 0)) X) = Inr (map (\<lambda>y. np_mean (map (\<lambda>a. a\<^sup>2) y)) X)" for X
  proof -
    have "map2 (\<lambda>y p. np_mean (map2 (\<lambda>a b. (b - a)\<^sup>2) y p)) X (map (map (\<lambda>x. 0)) X) =
        map (\<lambda>y. np_mean (map (\<lambda>a. a\<^sup>2) y)) X"
      by (induction X) (simp_all add: squared_error_zero)
    then show ?thesis by (simp add: keras_mse_def comp_def)
  qed
  then show ?thesis
    by (simp only:) (simp add: example_X_def np_mean_def sum_list_replicate)
qed

lemma np_mean_errors_example: "np_mean [40 / 41, 40 / 41, 40 / 41, 40 / 41] = 40 / 41"
  by (simp add: np_mean_def)

lemma np_std_errors_example: "np_std [40 / 41, 40 / 41, 40 / 41, 40 / 41] = 0"
  by (simp add: np_std_def np_var_def np_mean_errors_example) (simp add: np_mean_def)

lemma cell4_example: "cell4 example_models e (example_state3 labels) = Inr (example_state4 labels)"
proof -
  have "reconstruct example_models e d X = map (map (\<lambda>x. 0)) X" for d X
    by (simp add: example_models_def)
  then show ?thesis
    by (simp add: cell4_def example_state3_simps Let_def keras_mse_example
      np_mean_errors_example np_std_errors_example greater_astype_int_def
      heap_setitem_def deref_def setitem_example_working example_state4_def)
qed

lemma example_state4_simps:
  "heap (example_state4 labels) = [example_table labels,
     example_working labels [(Name ''anomaly_iforest'', IntCol [- 1, - 1, 1, 1]),
                      (Name ''anomaly_autoencoder'', IntCol [0, 0, 0, 0])]]"
  "df (example_state4 labels) = Some 0" "df_encoded (example_state4 labels) = Some 1"
  "X_scaled (example_state4 labels) = Some example_X" "printed (example_state4 labels) = []"
  by (simp_all add: example_state4_def example_state3_simps)

lemma raw_labels_example:
  "getitem (example_table labels) (Pos 41) = Inr (ObjCol labels)"
  using getitem_positional [of 41 "example_features @ [ObjCol labels]"]
  by (simp add: example_table_def length_example_features nth_append)

lemma getitem_Nil: "getitem [] l = Inl KeyError"
  by (simp add: getitem_def)

lemma getitem_Cons: "getitem ((k, v) # fr) l = (if k = l then Inr v else getitem fr l)"
  by (simp add: getitem_def)

lemma cell5_syntax_error: "cell5 st = Inl SyntaxError"
proof -
  have "unterminated_string_literal (''print('' @ [CHR 0x22] @ ''Isolation Forest:'')"
    by (simp add: unterminated_string_literal_def)
  then have "\<not> compiles cell5_source"
    by (simp add: compiles_def cell5_source_def)
  then show ?thesis by (simp add: cell5_def)
qed

lemma four_cells_example:
  "length labels = 4 \<Longrightarrow>
     run (take 4 (cells example_models e (example_table labels))) init_state =
       Inr (example_state4 labels)"
  by (simp add: cells_def cell1_example cell2_example_state cell3_example cell4_example)

lemma notebook_never_completes: "isl (notebook lib e parsed)"
  by (simp add: notebook_def cells_def cell5_syntax_error split: sum.splits)

lemma notebook_example:
  "length labels = 4 \<Longrightarrow>
     notebook example_models e (example_table labels) = Inl SyntaxError"
  by (simp add: notebook_def cells_def cell1_example cell2_example_state cell3_example
      cell4_example cell5_syntax_error)

subsection \<open>Cells 3 and 4, and the statements of cell 5\<close>

lemma cell3_eq_Inr:
  "cell3 lib e st = Inr st' \<longleftrightarrow>
     (\<exists>X r h'. X_scaled st = Some X \<and> df_encoded st = Some r \<and>
        heap_setitem (heap st) r (Name ''anomaly_iforest'')
          (IntCol (IsolationForest_fit_predict lib (5 / 100) (Some 42) e X)) = Inr h' \<and>
        st' = st\<lparr>heap := h'\<rparr>)"
  by (auto simp: cell3_def bind_e_eq_Inr)

lemma cell4_eq_Inr:
  "cell4 lib e st = Inr st' \<longleftrightarrow>
     (\<exists>X errors r h'. X_scaled st = Some X \<and>
        keras_mse X (reconstruct lib e (shape1 X) X) = Inr errors \<and>
        df_encoded st = Some r \<and>
        heap_setitem (heap st) r (Name ''anomaly_autoencoder'')
          (IntCol (greater_astype_int errors (np_mean errors + 3 * np_std errors))) = Inr h' \<and>
        st' = st\<lparr>heap := h', mse := Some errors,
                 threshold := Some (np_mean errors + 3 * np_std errors)\<rparr>)"
  by (auto simp: cell4_def bind_e_eq_Inr Let_def)

lemma cell5_statements_InrE:
  assumes "cell5_statements st = Inr st'"
  obtains d raw r h' ifo rep1 ae y_ae rep2 where
    "df st = Some d" and "heap_getitem (heap st) d (Pos 41) = Inr raw" and
    "df_encoded st = Some r" and
    "heap_setitem (heap st) r (Name ''true_label'')
       (IntCol (astype_int (series_ne_str raw ''normal.''))) = Inr h'" and
    "heap_getitem h' r (Name ''anomaly_iforest'') = Inr ifo" and
    "classification_report (astype_int (series_ne_str raw ''normal.''))
       (astype_int (series_eq_int ifo (- 1))) = Inr rep1" and
    "heap_getitem h' r (Name ''anomaly_autoencoder'') = Inr ae" and
    "class_labels ae = Inr y_ae" and
    "classification_report (astype_int (series_ne_str raw ''normal.'')) y_ae = Inr rep2" and
    "st' = st\<lparr>heap := h', printed := printed st @
            [Text (''Isolation Forest:'' @ [CHR 0x0A]), Report rep1,
             Text (''Autoencoder:'' @ [CHR 0x0A]), Report rep2]\<rparr>"
proof -
  from assms obtain d raw r h' tl y_true ifo rep1 ae y_ae rep2 where
    f: "df st = Some d" "heap_getitem (heap st) d (Pos 41) = Inr raw"
      "df_encoded st = Some r"
      "heap_setitem (heap st) r (Name ''true_label'')
         (IntCol (astype_int (series_ne_str raw ''normal.''))) = Inr h'"
      "heap_getitem h' r (Name ''true_label'') = Inr tl"
      "class_labels tl = Inr y_true"
      "heap_getitem h' r (Name ''anomaly_iforest'') = Inr ifo"
      "classification_report y_true (astype_int (series_eq_int ifo (- 1))) = Inr rep1"
      "heap_getitem h' r (Name ''anomaly_autoencoder'') = Inr ae"
      "class_labels ae = Inr y_ae"
      "classification_report y_true y_ae = Inr rep2"
      "st' = st\<lparr>heap := h', printed := printed st @
            [Text (''Isolation Forest:'' @ [CHR 0x0A]), Report rep1,
             Text (''Autoencoder:'' @ [CHR 0x0A]), Report rep2]\<rparr>"
    unfolding cell5_statements_def bind_e_eq_Inr var_eq_Inr by blast
  from f(4,5) have "tl = IntCol (astype_int (series_ne_str raw ''normal.''))"
    by (simp add: heap_getitem_setitem_same)
  with f(6) have "y_true = astype_int (series_ne_str raw ''normal.'')" by simp
  with f show ?thesis by (intro that [of d raw r h' ifo rep1 ae y_ae rep2]) simp_all
qed

subsection \<open>No cell writes to the raw table\<close>

lemma encode_loop_frame:
  "encode_loop ls r h = Inr h' \<Longrightarrow>
     length h' = length h \<and> (\<forall>r'. r' \<noteq> r \<longrightarrow> h' ! r' = h ! r')"
proof (induction ls arbitrary: h)
  case Nil
  then show ?case by simp
next
  case (Cons col cols)
  from Cons.prems obtain c h1 where
    put: "heap_setitem h r col (LabelEncoder_fit_transform c) = Inr h1"
    and rest: "encode_loop cols r h1 = Inr h'"
    by (auto split: sum.splits)
  from Cons.IH [OF rest] heap_setitem_length [OF put] heap_setitem_frame [OF put]
  show ?case by simp
qed









subsection \<open>The run up to cell 4\<close>

lemma cell1_init: "cell1 parsed init_state = Inr (loaded_state parsed)"
  by (simp add: cell1_def init_state_def loaded_state_def)

lemma loaded_state_simps [simp]:
  "heap (loaded_state parsed) = [parsed]" "df (loaded_state parsed) = Some 0"
  "printed (loaded_state parsed) = []"
  by (simp_all add: loaded_state_def init_state_def)

lemma four_cells_InrE:
  assumes "run (take 4 (cells lib e parsed)) init_state = Inr st"
  obtains s2 s3 where "cell2 (loaded_state parsed) = Inr s2" and "cell3 lib e s2 = Inr s3"
    and "cell4 lib e s3 = Inr st"
  using assms by (auto simp: cells_def cell1_init split: sum.splits)

lemma cell2_after_load:
  assumes "cell2 (loaded_state parsed) = Inr s2"
  obtains X where "df s2 = Some 0" and "df_encoded s2 = Some 1" and "length (heap s2) = 2"
    and "heap s2 ! 0 = parsed" and "printed s2 = []" and "X_scaled s2 = Some X"
proof -
  from assms obtain fr h2 X where
    loop: "encode_loop (select_dtypes_object fr) 1 [parsed, fr] = Inr h2"
    and s2: "s2 = (loaded_state parsed)\<lparr>heap := h2, df_encoded := Some 1, X_scaled := Some X\<rparr>"
    by (auto simp: cell2_def bind_e_eq_Inr Let_def)
  from encode_loop_frame [OF loop] have "length h2 = 2" and "h2 ! 0 = parsed" by auto
  with s2 show ?thesis by (intro that [of X]) simp_all
qed

lemma four_cells_final:
  assumes "run (take 4 (cells lib e parsed)) init_state = Inr st"
  obtains s2 X errors where
    "cell2 (loaded_state parsed) = Inr s2" and "X_scaled s2 = Some X" and
    "df_encoded st = Some 1" and "X_scaled st = Some X" and
    "heap_getitem (heap st) 1 (Name ''anomaly_iforest'') =
       Inr (IntCol (IsolationForest_fit_predict lib (5 / 100) (Some 42) e X))" and
    "keras_mse X (reconstruct lib e (shape1 X) X) = Inr errors" and
    "heap_getitem (heap st) 1 (Name ''anomaly_autoencoder'') =
       Inr (IntCol (greater_astype_int errors (np_mean errors + 3 * np_std errors)))"
proof -
  from assms obtain s2 s3 where c2: "cell2 (loaded_state parsed) = Inr s2"
    and c3: "cell3 lib e s2 = Inr s3" and c4: "cell4 lib e s3 = Inr st"
    by (rule four_cells_InrE)
  from c2 obtain X where s2: "df s2 = Some 0" "df_encoded s2 = Some 1" "length (heap s2) = 2"
    "heap s2 ! 0 = parsed" "printed s2 = []" "X_scaled s2 = Some X"
    by (rule cell2_after_load)
  let ?ifo = "IntCol (IsolationForest_fit_predict lib (5 / 100) (Some 42) e X)"
  from c3 s2 obtain h3 where
    p3: "heap_setitem (heap s2) 1 (Name ''anomaly_iforest'') ?ifo = Inr h3"
    and s3: "s3 = s2\<lparr>heap := h3\<rparr>"
    by (auto simp: cell3_eq_Inr)
  let ?t = "\<lambda>errors. np_mean errors + 3 * np_std errors"
  from c4 s2 s3 obtain errors h4 where
    err: "keras_mse X (reconstruct lib e (shape1 X) X) = Inr errors"
    and p4: "heap_setitem h3 1 (Name ''anomaly_autoencoder'')
               (IntCol (greater_astype_int errors (?t errors))) = Inr h4"
    and st: "st = s3\<lparr>heap := h4, mse := Some errors, threshold := Some (?t errors)\<rparr>"
    by (auto simp: cell4_eq_Inr)
  have ifo: "heap_getitem h4 1 (Name ''anomaly_iforest'') = Inr ?ifo"
    using heap_getitem_setitem_other [OF p4, of "Name ''anomaly_iforest''"]
      heap_getitem_setitem_same [OF p3]
    by simp
  have ae: "heap_getitem h4 1 (Name ''anomaly_autoencoder'') =
      Inr (IntCol (greater_astype_int errors (?t errors)))"
    by (rule heap_getitem_setitem_same [OF p4])
  show ?thesis
    by (rule that [of s2 X errors]) (use c2 s2 s3 st err ifo ae in simp_all)
qed


lemma getitem_label_bound:
  assumes "loaded_table fr" and "getitem fr (Pos j) = Inr v"
  shows "j < length fr"
proof -
  from assms(2) have "map_of fr (Pos j) = Some v" by (auto simp: getitem_def split: option.splits)
  then have "(Pos j, v) \<in> set fr" by (rule map_of_SomeD)
  then have "Pos j \<in> set (map fst fr)" by force
  with assms(1) show ?thesis by (auto simp: loaded_table_def)
qed

lemma cell2_loaded_state:
  assumes "loaded_table parsed" and "41 < length parsed"
  shows "cell2 (loaded_state parsed) =
           Inr ((loaded_state parsed)\<lparr>heap := [parsed, encoded parsed], df_encoded := Some 1,
                  X_scaled := Some (rows_of (nrows parsed)
                    (map scale_column (feature_columns parsed)))\<rparr>)"
  using cell2_loaded [of "loaded_state parsed" 0 parsed, OF _ _ _ assms] by simp

lemma filter_encoded:
  "filter (\<lambda>(k, v). k \<noteq> l) (encoded fr) = encoded (filter (\<lambda>(k, v). k \<noteq> l) fr)"
  by (induction fr) (auto simp: encoded_def)

lemma feature_columns_cong:
  assumes "filter (\<lambda>(k, v). k \<noteq> Pos 41) p1 = filter (\<lambda>(k, v). k \<noteq> Pos 41) p2"
  shows "feature_columns p1 = feature_columns p2"
  using assms by (simp add: feature_columns_def filter_encoded)

lemma loaded_table_hd:
  assumes "loaded_table fr"
  obtains c rest where "fr = (Pos 0, c) # rest"
proof -
  from assms have "0 < nrows fr" by (simp add: loaded_table_def)
  then obtain x rest where fr: "fr = x # rest" by (cases fr) (auto simp: nrows_def)
  then have "0 < length fr" by simp
  from loaded_table_label [OF assms this] fr have "fst x = Pos 0" by simp
  with fr show ?thesis by (cases x) (auto intro: that)
qed

lemma nrows_cong:
  assumes "loaded_table p1" and "loaded_table p2"
    and "filter (\<lambda>(k, v). k \<noteq> Pos 41) p1 = filter (\<lambda>(k, v). k \<noteq> Pos 41) p2"
  shows "nrows p1 = nrows p2"
proof -
  from assms(1) obtain c1 r1 where p1: "p1 = (Pos 0, c1) # r1" by (rule loaded_table_hd)
  from assms(2) obtain c2 r2 where p2: "p2 = (Pos 0, c2) # r2" by (rule loaded_table_hd)
  from assms(3) p1 p2 have "c1 = c2" by simp
  with p1 p2 show ?thesis by (simp add: nrows_def)
qed

lemma cell2_needs_label:
  assumes "loaded_table parsed" and "cell2 (loaded_state parsed) = Inr s2"
  shows "41 < length parsed"
proof -
  have loop: "encode_loop (select_dtypes_object parsed) (Suc 0) [parsed, parsed] =
      Inr [parsed, encoded parsed]"
    using encode_loop_encoded [OF loaded_table_distinct [OF assms(1)]
        loaded_table_rect [OF assms(1)], of "Suc 0" "[parsed, parsed]"]
    by simp
  from assms(2) obtain features where
    "drop_columns (encoded parsed) (Pos 41) = Inr features"
    by (auto simp: cell2_def deref_def Let_def loop bind_e_eq_Inr)
  then have "Pos 41 \<in> set (map fst parsed)"
    by (auto simp: drop_columns_def split: if_splits)
  with assms(1) show ?thesis by (auto simp: loaded_table_def)
qed


subsection \<open>The autoencoder's threshold\<close>

text \<open>
  Claim C1. Whenever the autoencoder cell completes, the reconstruction errors it stores
  are the per-row mean squared errors between the normalised matrix and its
  reconstruction, the threshold it stores is exactly the mean of these errors plus three
  times their standard deviation, and the column \<^verbatim>\<open>anomaly_autoencoder\<close> holds 1 for
  a row whose error is strictly greater than this threshold and 0 for every other row.
\<close>

theorem autoencoder_threshold_and_labels:
  assumes "cell4 lib e st = Inr st'"
  shows "\<exists>X errors r.
           X_scaled st = Some X \<and>
           keras_mse X (reconstruct lib e (shape1 X) X) = Inr errors \<and>
           mse st' = Some errors \<and>
           threshold st' = Some (np_mean errors + 3 * np_std errors) \<and>
           df_encoded st' = Some r \<and>
           heap_getitem (heap st') r (Name ''anomaly_autoencoder'') =
             Inr (IntCol (map (\<lambda>x. if x > np_mean errors + 3 * np_std errors then 1 else 0)
                            errors))"
  using assms
  by (auto simp: cell4_def bind_e_eq_Inr Let_def greater_astype_int_def
      dest: heap_getitem_setitem_same)


lemma np_mean_errors17: "np_mean errors17 = 17"
  by (simp add: np_mean_def errors17_def sum_list_replicate)

lemma np_std_errors17: "np_std errors17 = 68"
proof -
  have "np_var errors17 = 68\<^sup>2"
    by (simp add: np_var_def np_mean_errors17)
       (simp add: np_mean_def errors17_def sum_list_replicate)
  then show ?thesis
    by (simp add: np_std_def del: power2_eq_square)
qed

lemma keras_mse_X17: "keras_mse X17 (map (map (\<lambda>x. 0)) X17) = Inr errors17"
  by (simp add: keras_mse_def np_mean_def errors17_def X17_def)

lemma greater_errors17: "greater_astype_int errors17 221 = replicate 16 0 @ [1]"
  by (simp add: greater_astype_int_def errors17_def)

lemma cell4_state17:
  "cell4 example_models 0 state17 =
     Inr (state17\<lparr>heap := [labelled17], mse := Some errors17, threshold := Some 221\<rparr>)"
  by (simp add: cell4_def state17_def init_state_def example_models_def Let_def
        keras_mse_X17 np_mean_errors17 np_std_errors17 greater_errors17
        heap_setitem_def deref_def setitem_def nrows_def labelled17_def)

theorem autoencoder_threshold_and_labels_witness:
  "cell4 example_models 0 state17 =
     Inr (state17\<lparr>heap := [labelled17], mse := Some errors17, threshold := Some 221\<rparr>) \<and>
   (\<exists>X errors r.
      X_scaled state17 = Some X \<and>
      keras_mse X (reconstruct example_models 0 (shape1 X) X) = Inr errors \<and>
      Some errors17 = Some errors \<and>
      Some (221::real) = Some (np_mean errors + 3 * np_std errors) \<and>
      Some (0::nat) = Some r \<and>
      heap_getitem [labelled17] r (Name ''anomaly_autoencoder'') =
        Inr (IntCol (map (\<lambda>x. if x > np_mean errors + 3 * np_std errors then 1 else 0)
                       errors)))"
  using autoencoder_threshold_and_labels [OF cell4_state17] cell4_state17
  by (simp add: state17_def init_state_def)

subsection \<open>Claim C2: the ground-truth label\<close>

text \<open>
  Claim C2. The statement that derives \<^verbatim>\<open>true_label\<close> stands in cell 5, and cell 5
  does not compile: a line of it ends inside a string literal, so Python raises
  \<^verbatim>\<open>SyntaxError\<close> before any statement of the cell runs, whatever the state. On the
  example table the run reaches the state after cell 4, cell 5 fails there, and the
  working copy has no column \<^verbatim>\<open>true_label\<close>: no record ever gets a ground-truth
  label.
\<close>

theorem true_label_never_assigned:
  "(\<forall>st. cell5 st = Inl SyntaxError) \<and>
   run (take 4 (cells example_models 0 (example_table example_labels))) init_state =
     Inr (example_state4 example_labels) \<and>
   cell5 (example_state4 example_labels) = Inl SyntaxError \<and>
   df_encoded (example_state4 example_labels) = Some 1 \<and>
   heap_getitem (heap (example_state4 example_labels)) 1 (Name ''true_label'') = Inl KeyError"
  by (simp add: four_cells_example length_example_labels cell5_syntax_error
      example_state4_simps heap_getitem_def deref_def getitem_example_working
      getitem_Cons getitem_Nil)

text \<open>
  The statement itself is written as the claim says: were it to run, it would store 0
  for a record whose string in column 41 of the raw table is exactly \<^verbatim>\<open>normal.\<close> and
  1 for every other record.
\<close>

lemma statements_derive_true_label:
  assumes "cell5_statements st = Inr st'"
  shows "\<exists>d r raw. df st = Some d \<and> df_encoded st' = Some r \<and>
           heap_getitem (heap st) d (Pos 41) = Inr raw \<and>
           heap_getitem (heap st') r (Name ''true_label'') =
             Inr (IntCol (case raw of
                    ObjCol ys \<Rightarrow> map (\<lambda>y. if y = ''normal.'' then 0 else 1) ys
                  | IntCol xs \<Rightarrow> map (\<lambda>x. 1) xs
                  | FloatCol xs \<Rightarrow> map (\<lambda>x. 1) xs))"
proof -
  from assms obtain d raw r h' where f: "df st = Some d"
    "heap_getitem (heap st) d (Pos 41) = Inr raw" "df_encoded st = Some r"
    "heap_setitem (heap st) r (Name ''true_label'')
       (IntCol (astype_int (series_ne_str raw ''normal.''))) = Inr h'"
    and st': "heap st' = h'" "df_encoded st' = df_encoded st"
    by (elim cell5_statements_InrE) simp
  have "astype_int (series_ne_str raw ''normal.'') =
      (case raw of ObjCol ys \<Rightarrow> map (\<lambda>y. if y = ''normal.'' then 0 else 1) ys
       | IntCol xs \<Rightarrow> map (\<lambda>x. 1) xs | FloatCol xs \<Rightarrow> map (\<lambda>x. 1) xs)"
    by (cases raw) (simp_all add: astype_int_def)
  with f st' heap_getitem_setitem_same [OF f(4)] show ?thesis by simp
qed

subsection \<open>Claim C3: shape of the encoder's output\<close>




subsection \<open>Claim C4: scaled columns have mean 0 and standard deviation 1\<close>














subsection \<open>Claim C6: the isolation forest's sentinels and their evaluation\<close>

text \<open>
  Claim C6. Cell 3 stores \<open>-1\<close> and \<open>+1\<close> in the column \<^verbatim>\<open>anomaly_iforest\<close>, but the
  evaluation of cell 5 never happens: the cell does not compile, so the run of the
  notebook never completes, whatever the table and the models, the comparison with
  \<open>-1\<close> is never made, no precision, recall, F1 or support is computed, and nothing
  is printed. On the example table the run ends in \<^verbatim>\<open>SyntaxError\<close> after cell 4 has
  stored its labels:
\<close>

theorem evaluation_never_runs:
  "(\<forall>lib e parsed. isl (notebook lib e parsed)) \<and>
   notebook example_models 0 (example_table example_labels) = Inl SyntaxError \<and>
   run (take 4 (cells example_models 0 (example_table example_labels))) init_state =
     Inr (example_state4 example_labels) \<and>
   heap_getitem (heap (example_state4 example_labels)) 1 (Name ''anomaly_iforest'') =
     Inr (IntCol [- 1, - 1, 1, 1]) \<and>
   printed (example_state4 example_labels) = []"
  by (simp add: notebook_never_completes notebook_example four_cells_example length_example_labels
      example_state4_simps heap_getitem_def deref_def getitem_example_working getitem_Cons)

text \<open>
  The statements are written as the claim says: were they to run, the first report
  would be the classification report of the ground-truth labels against the predictions
  that are 1 where the sentinel equals \<open>-1\<close> and 0 elsewhere.
\<close>

lemma sentinel_comparison:
  "astype_int (series_eq_int (IntCol sentinels) (- 1)) =
     map (\<lambda>s. if s = - 1 then 1 else 0) sentinels"
  by (simp add: astype_int_def comp_def)

lemma statements_report_on_sentinels:
  assumes "cell5_statements st = Inr st'"
    and "df_encoded st = Some r"
    and "heap_getitem (heap st) r (Name ''anomaly_iforest'') = Inr (IntCol sentinels)"
  shows "\<exists>y_true rep rep_ae.
           heap_getitem (heap st') r (Name ''true_label'') = Inr (IntCol y_true) \<and>
           classification_report y_true (map (\<lambda>s. if s = - 1 then 1 else 0) sentinels) =
             Inr rep \<and>
           printed st' = printed st @
             [Text (''Isolation Forest:'' @ [CHR 0x0A]), Report rep,
              Text (''Autoencoder:'' @ [CHR 0x0A]), Report rep_ae]"
proof -
  let ?y = "\<lambda>raw. astype_int (series_ne_str raw ''normal.'')"
  from assms(1,2) obtain raw h' ifo rep1 rep2 where
    p: "heap_setitem (heap st) r (Name ''true_label'') (IntCol (?y raw)) = Inr h'" and
    g: "heap_getitem h' r (Name ''anomaly_iforest'') = Inr ifo" and
    r1: "classification_report (?y raw) (astype_int (series_eq_int ifo (- 1))) = Inr rep1" and
    st': "st' = st\<lparr>heap := h', printed := printed st @
            [Text (''Isolation Forest:'' @ [CHR 0x0A]), Report rep1,
             Text (''Autoencoder:'' @ [CHR 0x0A]), Report rep2]\<rparr>"
    by (elim cell5_statements_InrE) simp
  from g heap_getitem_setitem_other [OF p, of "Name ''anomaly_iforest''"] assms(3)
  have "ifo = IntCol sentinels" by simp
  with r1 have rep: "classification_report (?y raw)
      (map (\<lambda>s. if s = - 1 then 1 else 0) sentinels) = Inr rep1"
    by (simp only: sentinel_comparison)
  have tl: "heap_getitem (heap st') r (Name ''true_label'') = Inr (IntCol (?y raw))"
    using heap_getitem_setitem_same [OF p] st' by simp
  have pr: "printed st' = printed st @
      [Text (''Isolation Forest:'' @ [CHR 0x0A]), Report rep1,
       Text (''Autoencoder:'' @ [CHR 0x0A]), Report rep2]"
    using st' by simp
  show ?thesis
    by (rule exI [of _ "?y raw"], rule exI [of _ rep1], rule exI [of _ rep2])
       (intro conjI tl rep pr)
qed

subsection \<open>Claim C8: a column of zero variance\<close>

text \<open>
  Claim C8, amended. A feature column \<open>c\<close> of zero variance raises no error: cell 2
  completes, the scaler's scaling factor for \<open>c\<close> is 1 instead of the standard
  deviation, the matching column of \<^verbatim>\<open>X_scaled\<close> is \<open>(x - mean c) / 1\<close> for every
  \<open>x\<close> of \<open>c\<close>, and that is zero in every row (in exact arithmetic; up to rounding in
  floating point).
\<close>

theorem zero_variance_column_scaled_by_one:
  assumes "df st = Some d" and "d < length (heap st)"
    and "loaded_table (heap st ! d)" and "41 < length (heap st ! d)"
    and "j < length (feature_columns (heap st ! d))"
    and "np_std (feature_columns (heap st ! d) ! j) = 0"
  shows "\<exists>st' X. cell2 st = Inr st' \<and> X_scaled st' = Some X \<and>
           scaler_scale (feature_columns (heap st ! d) ! j) = 1 \<and>
           array_column X j =
             map (\<lambda>x. (x - np_mean (feature_columns (heap st ! d) ! j)) /
                        scaler_scale (feature_columns (heap st ! d) ! j))
               (feature_columns (heap st ! d) ! j) \<and>
           array_column X j = replicate (nrows (heap st ! d)) 0"
proof -
  let ?fr = "heap st ! d"
  let ?c = "feature_columns ?fr ! j"
  let ?X = "rows_of (nrows ?fr) (map scale_column (feature_columns ?fr))"
  have len: "length ?c = nrows ?fr"
    using feature_column_length [OF assms(3)] assms(5) by simp
  have col: "array_column ?X j = scale_column ?c"
    using array_column_rows_of [of j "map scale_column (feature_columns ?fr)" "nrows ?fr"]
      assms(5) len by simp
  then have "array_column ?X j = replicate (nrows ?fr) 0"
    using len by (simp add: scale_column_degenerate [OF assms(6)] map_replicate_const)
  moreover have "array_column ?X j = map (\<lambda>x. (x - np_mean ?c) / scaler_scale ?c) ?c"
    using col by (simp add: scale_column_def)
  moreover have "scaler_scale ?c = 1" by (rule scaler_scale_zero_variance [OF assms(6)])
  moreover have "cell2 st = Inr (st\<lparr>heap := heap st @ [encoded ?fr],
      df_encoded := Some (length (heap st)), X_scaled := Some ?X\<rparr>)"
    by (rule cell2_loaded [OF assms(1,2) refl assms(3,4)])
  ultimately show ?thesis by simp
qed

theorem zero_variance_column_scaled_by_one_witness:
  "df (example_state example_labels) = Some 0 \<and>
   0 < length (heap (example_state example_labels)) \<and>
   loaded_table (heap (example_state example_labels) ! 0) \<and>
   41 < length (heap (example_state example_labels) ! 0) \<and>
   2 < length (feature_columns (heap (example_state example_labels) ! 0)) \<and>
   np_std (feature_columns (heap (example_state example_labels) ! 0) ! 2) = 0 \<and>
   feature_columns (heap (example_state example_labels) ! 0) ! 2 = [5, 5, 5, 5] \<and>
   (\<exists>st' X. cell2 (example_state example_labels) = Inr st' \<and> X_scaled st' = Some X \<and>
      scaler_scale (feature_columns (heap (example_state example_labels) ! 0) ! 2) = 1 \<and>
      array_column X 2 = [0, 0, 0, 0])"
proof -
  have c: "feature_columns (heap (example_state example_labels) ! 0) ! 2 = [5, 5, 5, 5]"
    by (simp add: example_state_heap feature_columns_example)
  have h1: "df (example_state example_labels) = Some 0" by (rule example_state_df)
  have h2: "0 < length (heap (example_state example_labels))"
    by (simp add: example_state_heap)
  have h3: "loaded_table (heap (example_state example_labels) ! 0)"
    by (simp add: example_state_heap loaded_example_labels)
  have h4: "41 < length (heap (example_state example_labels) ! 0)"
    by (simp add: example_state_heap length_example_table)
  have h5: "2 < length (feature_columns (heap (example_state example_labels) ! 0))"
    by (simp add: example_state_heap feature_columns_example)
  have h6: "np_std (feature_columns (heap (example_state example_labels) ! 0) ! 2) = 0"
    by (simp only: c np_std_5555)
  from zero_variance_column_scaled_by_one [OF h1 h2 h3 h4 h5 h6] obtain st' X where
    r: "cell2 (example_state example_labels) = Inr st'" "X_scaled st' = Some X"
      "scaler_scale (feature_columns (heap (example_state example_labels) ! 0) ! 2) = 1" and
    col: "array_column X 2 = replicate (nrows (heap (example_state example_labels) ! 0)) 0"
    by blast
  have "array_column X 2 = [0, 0, 0, 0]"
    unfolding col by (simp add: example_state_heap nrows_example_table numeral_eq_Suc)
  with r h1 h2 h3 h4 h5 h6 c show ?thesis by blast
qed

text \<open>
  The claim as stated fails on the example table, whose column 2 is constant: cell 2
  returns a result, not an error, and column 2 of \<^verbatim>\<open>X_scaled\<close> is zero.
\<close>

theorem zero_variance_no_error_counterexample:
  "np_var (feature_columns (example_table example_labels) ! 2) = 0 \<and>
   \<not> isl (cell2 (example_state example_labels)) \<and>
   map_option (\<lambda>X. array_column X 2) (X_scaled (projr (cell2 (example_state example_labels))))
     = Some [0, 0, 0, 0]"
proof -
  have len: "length example_labels = 4" by (simp add: example_labels_def)
  have "array_column (rows_of 4 (map scale_column (feature_columns (example_table example_labels)))) 2
      = scale_column [5, 5, 5, 5]"
    by (subst array_column_rows_of) (simp_all add: feature_columns_example)
  then show ?thesis
    using np_std_5555
    by (simp add: cell2_example [OF len] nrows_example_table feature_columns_example
        scale_column_degenerate np_std_def)
qed

subsection \<open>Claim C9: the raw table is never written\<close>









subsection \<open>Claim C10: the scorers do not see the label column\<close>

lemma example_features_agree:
  "filter (\<lambda>(k, v). k \<noteq> Pos 41) (example_table labels) = positional example_features"
  using filter_positional [of example_features]
  by (simp add: example_table_def positional_snoc length_example_features)

text \<open>
  Claim C10. Take two loaded tables that agree on every column but the one labelled 41,
  and run the notebook up to the last scorer (cells 1 to 4) on each, with the same models
  and the same ambient randomness. If both runs complete, they compute the same
  normalised matrix, the same isolation-forest labels and the same autoencoder labels.
\<close>

theorem scorers_ignore_label_column:
  assumes "loaded_table p1" and "loaded_table p2"
    and "filter (\<lambda>(k, v). k \<noteq> Pos 41) p1 = filter (\<lambda>(k, v). k \<noteq> Pos 41) p2"
    and "run (take 4 (cells lib e p1)) init_state = Inr st1"
    and "run (take 4 (cells lib e p2)) init_state = Inr st2"
  shows "df_encoded st1 = Some 1 \<and> df_encoded st2 = Some 1 \<and>
         X_scaled st1 = X_scaled st2 \<and>
         (\<exists>sentinels flags.
            heap_getitem (heap st1) 1 (Name ''anomaly_iforest'') = Inr (IntCol sentinels) \<and>
            heap_getitem (heap st2) 1 (Name ''anomaly_iforest'') = Inr (IntCol sentinels) \<and>
            heap_getitem (heap st1) 1 (Name ''anomaly_autoencoder'') = Inr (IntCol flags) \<and>
            heap_getitem (heap st2) 1 (Name ''anomaly_autoencoder'') = Inr (IntCol flags))"
proof -
  let ?X = "\<lambda>p. rows_of (nrows p) (map scale_column (feature_columns p))"
  let ?t = "\<lambda>errors. np_mean errors + 3 * np_std errors"
  have run: "\<exists>errors. df_encoded st = Some 1 \<and> X_scaled st = Some (?X p) \<and>
      heap_getitem (heap st) 1 (Name ''anomaly_iforest'') =
        Inr (IntCol (IsolationForest_fit_predict lib (5 / 100) (Some 42) e (?X p))) \<and>
      keras_mse (?X p) (reconstruct lib e (shape1 (?X p)) (?X p)) = Inr errors \<and>
      heap_getitem (heap st) 1 (Name ''anomaly_autoencoder'') =
        Inr (IntCol (greater_astype_int errors (?t errors)))"
    if ld: "loaded_table p" and nb: "run (take 4 (cells lib e p)) init_state = Inr st" for p st
  proof -
    from nb obtain s2 X errors where
      c2: "cell2 (loaded_state p) = Inr s2" and x2: "X_scaled s2 = Some X" and
      f: "df_encoded st = Some 1" "X_scaled st = Some X"
        "heap_getitem (heap st) 1 (Name ''anomaly_iforest'') =
           Inr (IntCol (IsolationForest_fit_predict lib (5 / 100) (Some 42) e X))"
        "keras_mse X (reconstruct lib e (shape1 X) X) = Inr errors"
        "heap_getitem (heap st) 1 (Name ''anomaly_autoencoder'') =
           Inr (IntCol (greater_astype_int errors (?t errors)))"
      by (elim four_cells_final) blast
    have "41 < length p" by (rule cell2_needs_label [OF ld c2])
    from cell2_loaded_state [OF ld this] c2 x2 have "X = ?X p" by auto
    with f show ?thesis by blast
  qed
  have same: "?X p1 = ?X p2"
    by (simp only: feature_columns_cong [OF assms(3)] nrows_cong [OF assms(1-3)])
  from run [OF assms(1,4)] run [OF assms(2,5)] show ?thesis
    by (auto simp: same)
qed

theorem scorers_ignore_label_column_witness:
  "loaded_table (example_table example_labels) \<and> loaded_table (example_table example_labels2) \<and>
   filter (\<lambda>(k, v). k \<noteq> Pos 41) (example_table example_labels) =
     filter (\<lambda>(k, v). k \<noteq> Pos 41) (example_table example_labels2) \<and>
   example_table example_labels \<noteq> example_table example_labels2 \<and>
   run (take 4 (cells example_models 0 (example_table example_labels))) init_state =
     Inr (example_state4 example_labels) \<and>
   run (take 4 (cells example_models 0 (example_table example_labels2))) init_state =
     Inr (example_state4 example_labels2) \<and>
   X_scaled (example_state4 example_labels) = X_scaled (example_state4 example_labels2) \<and>
   heap_getitem (heap (example_state4 example_labels)) 1 (Name ''anomaly_iforest'') =
     heap_getitem (heap (example_state4 example_labels2)) 1 (Name ''anomaly_iforest'') \<and>
   heap_getitem (heap (example_state4 example_labels)) 1 (Name ''anomaly_autoencoder'') =
     heap_getitem (heap (example_state4 example_labels2)) 1 (Name ''anomaly_autoencoder'')"
proof -
  have h1: "loaded_table (example_table example_labels)" by (rule loaded_example_labels)
  have h2: "loaded_table (example_table example_labels2)"
    by (rule loaded_example_table [OF length_example_labels2])
  have h3: "filter (\<lambda>(k, v). k \<noteq> Pos 41) (example_table example_labels) =
      filter (\<lambda>(k, v). k \<noteq> Pos 41) (example_table example_labels2)"
    by (simp only: example_features_agree)
  have "getitem (example_table example_labels) (Pos 41) \<noteq>
      getitem (example_table example_labels2) (Pos 41)"
    by (simp add: raw_labels_example example_labels_def example_labels2_def)
  then have ne: "example_table example_labels \<noteq> example_table example_labels2" by auto
  note r1 = four_cells_example [OF length_example_labels, of 0]
  note r2 = four_cells_example [OF length_example_labels2, of 0]
  from scorers_ignore_label_column [OF h1 h2 h3 r1 r2] h1 h2 h3 ne r1 r2
  show ?thesis by auto
qed

end
